theory Spec2Isabelle
  imports Main "HOL-Library.Sublist" "HOL-Library.Char_ord"
begin

section \<open>Client-id extraction from an HTTP request (package restplay)\<close>

text \<open>
  The development follows \<^verbatim>\<open>src/request_context.go\<close>: the function
  \<^verbatim>\<open>GetClientID\<close> and its helper \<^verbatim>\<open>GetClientIDFromBearerToken\<close>.
  Go strings are byte sequences, modelled as \<^typ>\<open>string\<close> (a list of 8-bit characters).
  The functions of Go's standard library that the code calls (\<^verbatim>\<open>strings\<close>,
  \<^verbatim>\<open>encoding/base64\<close>, \<^verbatim>\<open>mime\<close>, \<^verbatim>\<open>net/url\<close>, \<^verbatim>\<open>net/http\<close>,
  \<^verbatim>\<open>io\<close>) are modelled on bytes; characters outside ASCII are neither white space
  nor letters with a case.
\<close>

subsection \<open>Errors\<close>

text \<open>
  The three sentinel errors of the package, the errors of the library calls, and
  \<^verbatim>\<open>fmt.Errorf("...: %w", err)\<close> as a wrapper that keeps the message and the cause.
\<close>

datatype error =
    InvalidBearerTokenErr
  | NilRequestErr
  | MissingClientIDErr
  | EscapeError string
  | SemicolonError
  | PostTooLarge
  | MimeError string
  | MissingFormBody
  | ErrInvalidMediaParameter
  | ReadError string
  | Errorf string error

subsection \<open>Package strings\<close>

text \<open>\<^verbatim>\<open>strings.Cut(s, sep)\<close>: the text before and after the first occurrence of
  \<open>sep\<close>, and whether it occurs; without an occurrence the result is \<open>(s, "", false)\<close>.\<close>

fun Cut :: "string \<Rightarrow> string \<Rightarrow> string \<times> string \<times> bool" where
  "Cut [] sep = ([], [], sep = [])"
| "Cut (c # cs) sep =
     (if prefix sep (c # cs) then ([], drop (length sep) (c # cs), True)
      else (case Cut cs sep of (b, a, f) \<Rightarrow> (c # b, a, f)))"

lemma Cut_length:
  "Cut s sep = (b, a, True) \<Longrightarrow> length b + length sep + length a = length s"
proof (induction s arbitrary: b a)
  case Nil
  then show ?case by simp
next
  case (Cons c cs)
  show ?case
  proof (cases "prefix sep (c # cs)")
    case True
    with Cons.prems have ba: "b = []" "a = drop (length sep) (c # cs)"
      by auto
    from True have "length sep \<le> length (c # cs)"
      by (rule prefix_length_le)
    with ba show ?thesis by simp
  next
    case False
    with Cons.prems obtain b' where "Cut cs sep = (b', a, True)" and "b = c # b'"
      by (auto split: prod.splits)
    with Cons.IH show ?thesis by fastforce
  qed
qed

lemma Cut_shorter:
  assumes "sep \<noteq> []" and "(b, a, True) = Cut s sep"
  shows "length a < length s"
proof -
  from assms(2) have "Cut s sep = (b, a, True)" by simp
  from Cut_length [OF this] assms(1) show ?thesis
    by (cases sep) auto
qed

text \<open>\<^verbatim>\<open>strings.Split(s, sep)\<close>: the pieces of \<open>s\<close> between the occurrences of
  \<open>sep\<close>, found from the left; an empty separator splits after every byte.\<close>

function Split :: "string \<Rightarrow> string \<Rightarrow> string list" where
  "Split s sep =
     (if sep = [] then map (\<lambda>c. [c]) s
      else (let (b, a, found) = Cut s sep in
            if found then b # Split a sep else [b]))"
  by pat_completeness auto
termination
  by (relation "measure (\<lambda>(s, sep). length s)") (auto dest: Cut_shorter)

declare Split.simps [simp del]

text \<open>\<^verbatim>\<open>strings.HasPrefix\<close> and \<^verbatim>\<open>strings.TrimPrefix\<close>.\<close>

definition HasPrefix :: "string \<Rightarrow> string \<Rightarrow> bool" where
  "HasPrefix s p = prefix p s"

definition TrimPrefix :: "string \<Rightarrow> string \<Rightarrow> string" where
  "TrimPrefix s p = (if HasPrefix s p then drop (length p) s else s)"

subsection \<open>Bytes\<close>

text \<open>The byte with a given code, and the classes of bytes the library tests for.\<close>

definition byte :: "nat \<Rightarrow> char" where
  "byte n = Char (odd n) (odd (n div 2)) (odd (n div 4)) (odd (n div 8))
                 (odd (n div 16)) (odd (n div 32)) (odd (n div 64)) (odd (n div 128))"

definition code :: "char \<Rightarrow> nat" where
  "code c = of_char c"

text \<open>
  \<^verbatim>\<open>strings.ToLower\<close> on ASCII letters; a byte outside ASCII is kept as it is.
  (Go maps the letters outside ASCII too; the model follows it on ASCII text only.)
\<close>

definition lower :: "char \<Rightarrow> char" where
  "lower c = (if 65 \<le> code c \<and> code c \<le> 90 then byte (code c + 32) else c)"

definition ToLower :: "string \<Rightarrow> string" where
  "ToLower s = map lower s"

text \<open>\<^verbatim>\<open>unicode.IsSpace\<close> on ASCII: tab, line feed, vertical tab, form feed,
  carriage return and space; \<^verbatim>\<open>strings.TrimSpace\<close> and the trimming of leading white
  space with it. (Go also trims the white space outside ASCII, such as U+00A0; the model
  follows it on ASCII text only.)\<close>

definition IsSpace :: "char \<Rightarrow> bool" where
  "IsSpace c = ((9 \<le> code c \<and> code c \<le> 13) \<or> code c = 32)"

definition TrimLeft :: "string \<Rightarrow> string" where
  "TrimLeft s = dropWhile IsSpace s"

definition TrimSpace :: "string \<Rightarrow> string" where
  "TrimSpace s = rev (dropWhile IsSpace (rev (dropWhile IsSpace s)))"

subsection \<open>Headers\<close>

text \<open>
  \<^verbatim>\<open>http.Header\<close> is a map from canonical header names to lists of values, here an
  association list read with \<^const>\<open>map_of\<close>. \<^verbatim>\<open>Header.Get\<close> returns the first value
  stored under the name and the empty string when there is none. The two names the code
  asks for, \<^verbatim>\<open>Authorization\<close> and \<^verbatim>\<open>Content-Type\<close>, are canonical already.
\<close>

type_synonym header = "(string \<times> string list) list"

definition Header_Get :: "header \<Rightarrow> string \<Rightarrow> string" where
  "Header_Get h key =
     (case map_of h key of None \<Rightarrow> '''' | Some [] \<Rightarrow> '''' | Some (v # _) \<Rightarrow> v)"

subsection \<open>Base64 and Basic-Auth\<close>

text \<open>The value of a symbol of the standard base64 alphabet.\<close>

definition b64val :: "char \<Rightarrow> nat option" where
  "b64val c =
     (let n = code c in
      if 65 \<le> n \<and> n \<le> 90 then Some (n - 65)
      else if 97 \<le> n \<and> n \<le> 122 then Some (n - 71)
      else if 48 \<le> n \<and> n \<le> 57 then Some (n + 4)
      else if n = 43 then Some 62
      else if n = 47 then Some 63
      else None)"

text \<open>
  One quantum of four symbols gives three bytes; a final quantum padded with one or two
  \<open>=\<close> gives two bytes or one. Anything else is corrupt input.
\<close>

fun quanta :: "string \<Rightarrow> string option" where
  "quanta [] = Some []"
| "quanta (a # b # c # d # rest) =
     (case (b64val a, b64val b) of
        (Some x, Some y) \<Rightarrow>
          (if c = CHR ''='' then
             (if d = CHR ''='' \<and> rest = [] then Some [byte ((x * 64 + y) div 16)] else None)
           else (case b64val c of
              None \<Rightarrow> None
            | Some z \<Rightarrow>
               (if d = CHR ''='' then
                  (if rest = []
                   then Some [byte ((x * 64 + y) div 16),
                              byte (((y * 64 + z) div 4) mod 256)]
                   else None)
                else (case b64val d of
                   None \<Rightarrow> None
                 | Some w \<Rightarrow>
                    (case quanta rest of
                       None \<Rightarrow> None
                     | Some bs \<Rightarrow>
                        Some (byte ((x * 64 + y) div 16)
                              # byte (((y * 64 + z) div 4) mod 256)
                              # byte ((z * 64 + w) mod 256) # bs))))))
      | _ \<Rightarrow> None)"
| "quanta _ = None"

text \<open>\<^verbatim>\<open>base64.StdEncoding.DecodeString\<close>: carriage returns and line feeds are
  skipped wherever they stand.\<close>

definition DecodeString :: "string \<Rightarrow> string option" where
  "DecodeString s = quanta (filter (\<lambda>c. code c \<noteq> 10 \<and> code c \<noteq> 13) s)"

text \<open>
  \<^verbatim>\<open>net/http\<close>'s \<^verbatim>\<open>parseBasicAuth\<close>: the scheme \<^verbatim>\<open>Basic\<close> in any case and one
  space, then the base64 of \<^verbatim>\<open>username:password\<close>.
\<close>

definition parseBasicAuth :: "string \<Rightarrow> string \<times> string \<times> bool" where
  "parseBasicAuth auth =
     (if length auth < 6 \<or> ToLower (take 6 auth) \<noteq> ''basic '' then ('''', '''', False)
      else (case DecodeString (drop 6 auth) of
              None \<Rightarrow> ('''', '''', False)
            | Some cs \<Rightarrow>
               (case Cut cs '':'' of
                  (username, password, True) \<Rightarrow> (username, password, True)
                | (_, _, False) \<Rightarrow> ('''', '''', False))))"

definition BasicAuth_of :: "header \<Rightarrow> string \<times> string \<times> bool" where
  "BasicAuth_of h =
     (let auth = Header_Get h ''Authorization'' in
      if auth = '''' then ('''', '''', False) else parseBasicAuth auth)"

subsection \<open>Package mime: the media type of a Content-Type\<close>

definition isTSpecial :: "char \<Rightarrow> bool" where
  "isTSpecial c =
     (code c \<in> set [40, 41, 60, 62, 64, 44, 59, 58, 92, 34, 47, 91, 93, 63, 61])"

definition isTokenChar :: "char \<Rightarrow> bool" where
  "isTokenChar c = (32 < code c \<and> code c < 127 \<and> \<not> isTSpecial c)"

definition consumeToken :: "string \<Rightarrow> string \<times> string" where
  "consumeToken v = (takeWhile isTokenChar v, dropWhile isTokenChar v)"

text \<open>
  The body of a quoted string, after its opening quote: up to the closing quote, a
  backslash before a special character dropped; a line break or a missing closing quote
  is a failure. \<open>buf\<close> is the text read so far, last byte first.
\<close>

fun quoted :: "string \<Rightarrow> string \<Rightarrow> (string \<times> string) option" where
  "quoted buf [] = None"
| "quoted buf (r # rest) =
     (if code r = 34 then Some (rev buf, rest)
      else if code r = 92 \<and> rest \<noteq> [] \<and> isTSpecial (hd rest)
        then quoted (hd rest # buf) (tl rest)
      else if code r = 13 \<or> code r = 10 then None
      else quoted (r # buf) rest)"

definition consumeValue :: "string \<Rightarrow> string \<times> string" where
  "consumeValue v =
     (case v of
        [] \<Rightarrow> ('''', '''')
      | c # cs \<Rightarrow>
         (if code c \<noteq> 34 then consumeToken v
          else (case quoted [] cs of
                  Some (val, rest) \<Rightarrow> (val, rest)
                | None \<Rightarrow> ('''', v))))"

definition consumeMediaParam :: "string \<Rightarrow> string \<times> string \<times> string" where
  "consumeMediaParam v =
     (let rest = TrimLeft v in
      if \<not> HasPrefix rest '';'' then ('''', '''', v)
      else
        let rest = TrimLeft (drop 1 rest);
            (param, rest) = consumeToken rest;
            param = ToLower param in
        if param = '''' then ('''', '''', v)
        else
          let rest = TrimLeft rest in
          if \<not> HasPrefix rest ''='' then ('''', '''', v)
          else
            let rest = TrimLeft (drop 1 rest);
                (val, rest2) = consumeValue rest in
            if val = '''' \<and> rest2 = rest then ('''', '''', v)
            else (param, val, rest2))"

definition checkMediaTypeDisposition :: "string \<Rightarrow> error option" where
  "checkMediaTypeDisposition s =
     (let (typ, rest) = consumeToken s in
      if typ = '''' then Some (MimeError ''mime: no media type'')
      else if rest = '''' then None
      else if \<not> HasPrefix rest ''/''
        then Some (MimeError ''mime: expected slash after first token'')
      else
        let (subtype, rest) = consumeToken (drop 1 rest) in
        if subtype = '''' then Some (MimeError ''mime: expected token after slash'')
        else if rest \<noteq> ''''
          then Some (MimeError ''mime: unexpected content after media subtype'')
        else None)"

lemma quoted_shorter: "quoted buf s = Some (val, rest) \<Longrightarrow> length rest < length s"
proof (induction buf s rule: quoted.induct)
  case (1 buf)
  then show ?case by simp
next
  case (2 buf r rest')
  then show ?case
    by (cases rest') (auto split: if_splits)
qed

lemma consumeValue_shorter: "consumeValue v = (val, rest) \<Longrightarrow> length rest \<le> length v"
proof (cases v)
  case Nil
  assume "consumeValue v = (val, rest)"
  with Nil show ?thesis by (simp add: consumeValue_def)
next
  case (Cons c cs)
  assume cv: "consumeValue v = (val, rest)"
  show ?thesis
  proof (cases "code c \<noteq> 34")
    case True
    with cv Cons have "rest = dropWhile isTokenChar v"
      by (simp add: consumeValue_def consumeToken_def)
    then show ?thesis by (simp add: length_dropWhile_le)
  next
    case False
    show ?thesis
    proof (cases "quoted [] cs")
      case None
      with cv Cons False show ?thesis by (simp add: consumeValue_def)
    next
      case (Some p)
      with cv Cons False have "quoted [] cs = Some (val, rest)"
        by (cases p) (simp add: consumeValue_def)
      from quoted_shorter [OF this] Cons show ?thesis by simp
    qed
  qed
qed

lemma TrimLeft_shorter: "length (TrimLeft s) \<le> length s"
  by (simp add: TrimLeft_def length_dropWhile_le)

lemma consumeMediaParam_shorter:
  assumes "consumeMediaParam v = (key, val, rest)" and "key \<noteq> ''''"
  shows "length rest < length v"
proof -
  define r1 where "r1 = TrimLeft v"
  define r2 where "r2 = TrimLeft (drop 1 r1)"
  define r3 where "r3 = TrimLeft (dropWhile isTokenChar r2)"
  define r4 where "r4 = TrimLeft (drop 1 r3)"
  from assms have semi: "HasPrefix r1 '';''"
    unfolding consumeMediaParam_def r1_def
    by (auto simp: Let_def split: if_splits prod.splits)
  from assms have "consumeValue r4 = (val, rest)"
    unfolding consumeMediaParam_def r1_def r2_def r3_def r4_def consumeToken_def
    by (auto simp: Let_def split: if_splits prod.splits)
  then have "length rest \<le> length r4" by (rule consumeValue_shorter)
  also have "\<dots> \<le> length r3"
    unfolding r4_def by (rule order_trans [OF TrimLeft_shorter]) simp
  also have "\<dots> \<le> length r2"
    unfolding r3_def by (rule order_trans [OF TrimLeft_shorter]) (rule length_dropWhile_le)
  also have "\<dots> \<le> length (drop 1 r1)"
    unfolding r2_def by (rule TrimLeft_shorter)
  also from semi have "\<dots> < length r1"
    by (cases r1) (auto simp: HasPrefix_def)
  also have "\<dots> \<le> length v"
    unfolding r1_def by (rule TrimLeft_shorter)
  finally show ?thesis .
qed

text \<open>
  The loop of \<^verbatim>\<open>mime.ParseMediaType\<close> over the parameters that follow the media type.
  Only the media type and the error are results here (the code drops the parameters), so
  of the parameter maps the loop keeps the pairs read so far, for the test that rejects a
  parameter name given twice with different values.
\<close>

function params_loop :: "(string \<times> string) list \<Rightarrow> string \<Rightarrow> string \<Rightarrow> string \<times> error option"
where
  "params_loop seen mediatype v0 =
     (if TrimLeft v0 = [] then (mediatype, None)
      else if fst (consumeMediaParam (TrimLeft v0)) = ''''
        then (if TrimSpace (snd (snd (consumeMediaParam (TrimLeft v0)))) = '';''
              then (mediatype, None)
              else (mediatype, Some ErrInvalidMediaParameter))
      else
        (let (key, val, rest) = consumeMediaParam (TrimLeft v0) in
         if (case map_of seen key of Some old \<Rightarrow> old \<noteq> val | None \<Rightarrow> False)
         then ('''', Some (MimeError ''mime: duplicate parameter name''))
         else params_loop ((key, val) # seen) mediatype rest))"
  by pat_completeness auto
termination
proof (relation "measure (\<lambda>(seen, mediatype, v). length v)", goal_cases)
  case 1
  show ?case by simp
next
  case (2 seen mediatype v0 x key y val rest)
  then have cm: "consumeMediaParam (TrimLeft v0) = (key, val, rest)"
    by simp
  with 2 have "key \<noteq> ''''"
    by (metis fst_conv)
  from consumeMediaParam_shorter [OF cm \<open>key \<noteq> ''''\<close>] TrimLeft_shorter [of v0]
  show ?case by simp
qed

declare params_loop.simps [simp del]

text \<open>
  \<^verbatim>\<open>mime.ParseMediaType\<close>, its media type and its error. On a header value of ASCII
  bytes this is Go's function; the properties below that speak of the media type take it
  as the value the function returns.
\<close>

definition ParseMediaType :: "string \<Rightarrow> string \<times> error option" where
  "ParseMediaType v =
     (let (base, _, _) = Cut v '';'';
          mediatype = TrimSpace (ToLower base) in
      case checkMediaTypeDisposition mediatype of
        Some err \<Rightarrow> ('''', Some err)
      | None \<Rightarrow> params_loop [] mediatype (drop (length base) v))"

subsection \<open>Package net/url: query strings\<close>

text \<open>
  \<^verbatim>\<open>url.Values\<close> maps a key to its list of values; an association list read with
  \<^const>\<open>map_of\<close>. \<^verbatim>\<open>Values.Get\<close> is the first value of the key, or the empty string.
  \<open>Values_Append m k vs\<close> is the assignment \<^verbatim>\<open>m[k] = append(m[k], vs...)\<close>.
\<close>

type_synonym Values = "(string \<times> string list) list"

definition Values_Get :: "Values \<Rightarrow> string \<Rightarrow> string" where
  "Values_Get m key =
     (case map_of m key of None \<Rightarrow> '''' | Some [] \<Rightarrow> '''' | Some (v # _) \<Rightarrow> v)"

fun Values_Append :: "Values \<Rightarrow> string \<Rightarrow> string list \<Rightarrow> Values" where
  "Values_Append [] k vs = [(k, vs)]"
| "Values_Append ((k', ws) # m) k vs =
     (if k' = k then (k', ws @ vs) # m else (k', ws) # Values_Append m k vs)"

definition copyValues :: "Values \<Rightarrow> Values \<Rightarrow> Values" where
  "copyValues dst src = foldl (\<lambda>d (k, vs). Values_Append d k vs) dst src"

definition ishex :: "char \<Rightarrow> bool" where
  "ishex c = ((48 \<le> code c \<and> code c \<le> 57) \<or> (97 \<le> code c \<and> code c \<le> 102)
              \<or> (65 \<le> code c \<and> code c \<le> 70))"

definition unhex :: "char \<Rightarrow> nat" where
  "unhex c =
     (if 48 \<le> code c \<and> code c \<le> 57 then code c - 48
      else if 97 \<le> code c \<and> code c \<le> 102 then code c - 97 + 10
      else if 65 \<le> code c \<and> code c \<le> 70 then code c - 65 + 10
      else 0)"

text \<open>
  \<^verbatim>\<open>url.QueryUnescape\<close>: \<open>%XX\<close> is the byte with hexadecimal code \<open>XX\<close>, \<open>+\<close> is a
  space; a \<open>%\<close> not followed by two hexadecimal digits is an \<^verbatim>\<open>EscapeError\<close> that
  quotes the \<open>%\<close> and up to two bytes after it.
\<close>

fun QueryUnescape :: "string \<Rightarrow> error + string" where
  "QueryUnescape [] = Inr []"
| "QueryUnescape (c # s) =
     (if code c = 37 then
        (case s of
           h # l # rest \<Rightarrow>
             (if ishex h \<and> ishex l then
                (case QueryUnescape rest of
                   Inl e \<Rightarrow> Inl e
                 | Inr t \<Rightarrow> Inr (byte (unhex h * 16 + unhex l) # t))
              else Inl (EscapeError (take 3 (c # s))))
         | _ \<Rightarrow> Inl (EscapeError (take 3 (c # s))))
      else
        (case QueryUnescape s of
           Inl e \<Rightarrow> Inl e
         | Inr t \<Rightarrow> Inr ((if code c = 43 then byte 32 else c) # t)))"

text \<open>
  One round of the loop of \<^verbatim>\<open>url.ParseQuery\<close>, for the piece \<open>key\<close> between two
  \<open>&\<close>: a piece with a semicolon sets the error (also over an earlier one) and is
  skipped, an empty piece is skipped, a piece whose key or value does not unescape is
  skipped and its error kept if it is the first; any other piece adds its value under
  its key.
\<close>

definition parsePair :: "Values \<Rightarrow> error option \<Rightarrow> string \<Rightarrow> Values \<times> error option" where
  "parsePair m err key =
     (if CHR '';'' \<in> set key then (m, Some SemicolonError)
      else if key = '''' then (m, err)
      else
        let (key, val, _) = Cut key ''='' in
        case QueryUnescape key of
          Inl err1 \<Rightarrow> (m, if err = None then Some err1 else err)
        | Inr key \<Rightarrow>
           (case QueryUnescape val of
              Inl err1 \<Rightarrow> (m, if err = None then Some err1 else err)
            | Inr val \<Rightarrow> (Values_Append m key [val], err)))"

function parseQuery :: "Values \<Rightarrow> error option \<Rightarrow> string \<Rightarrow> Values \<times> error option" where
  "parseQuery m err query =
     (if query = '''' then (m, err)
      else parseQuery (fst (parsePair m err (fst (Cut query ''&''))))
                      (snd (parsePair m err (fst (Cut query ''&''))))
                      (fst (snd (Cut query ''&''))))"
  by pat_completeness auto

lemma Cut_after_shorter: "s \<noteq> [] \<Longrightarrow> sep \<noteq> [] \<Longrightarrow> length (fst (snd (Cut s sep))) < length s"
proof (induction s)
  case Nil
  then show ?case by simp
next
  case (Cons c cs)
  show ?case
  proof (cases "prefix sep (c # cs)")
    case True
    with Cons.prems show ?thesis by simp
  next
    case False
    show ?thesis
    proof (cases cs)
      case Nil
      with False Cons.prems show ?thesis by (simp split: prod.splits)
    next
      case (Cons d ds)
      with Cons.IH Cons.prems have "length (fst (snd (Cut cs sep))) < length cs"
        by simp
      with False show ?thesis by (auto split: prod.splits)
    qed
  qed
qed

termination parseQuery
  by (relation "measure (\<lambda>(m, err, query). length query)")
     (auto intro: Cut_after_shorter)

declare parseQuery.simps [simp del]

definition ParseQuery :: "string \<Rightarrow> Values \<times> error option" where
  "ParseQuery query = parseQuery [] None query"

subsection \<open>Readers\<close>

text \<open>
  A request body is a stream that can be read once: the bytes still to come, and the
  error that ends the stream in place of the end of file, if any.
  \<^verbatim>\<open>io.ReadAll\<close> returns the bytes together with that error and leaves the stream
  drained. \<open>ReadAll_Limit n\<close> is \<^verbatim>\<open>io.ReadAll(io.LimitReader(r, n))\<close>, which stops
  after \<open>n\<close> bytes. \<open>NewBuffer bs\<close> is \<^verbatim>\<open>io.NopCloser(bytes.NewBuffer(bs))\<close>.
\<close>

datatype reader = Reader (pending: string) (fault: "error option")

definition ReadAll :: "reader \<Rightarrow> (string \<times> error option) \<times> reader" where
  "ReadAll rd = ((pending rd, fault rd), Reader [] (fault rd))"

definition ReadAll_Limit :: "nat \<Rightarrow> reader \<Rightarrow> (string \<times> error option) \<times> reader" where
  "ReadAll_Limit n rd =
     (if n \<le> length (pending rd)
      then ((take n (pending rd), None), Reader (drop n (pending rd)) (fault rd))
      else ((pending rd, fault rd), Reader [] (fault rd)))"

definition NewBuffer :: "string \<Rightarrow> reader" where
  "NewBuffer bs = Reader bs None"

subsection \<open>Requests and form parsing (package net/http)\<close>

text \<open>
  The fields of \<^verbatim>\<open>http.Request\<close> that the code and \<^verbatim>\<open>Request.ParseForm\<close> read or
  write. \<open>URL\<close>, \<open>Body\<close>, \<open>Form\<close> and \<open>PostForm\<close> may be nil.
\<close>

record url =
  Path :: string
  RawQuery :: string

record Request =
  Method :: string
  URL :: "url option"
  Header :: header
  Body :: "reader option"
  ContentLength :: int
  Form :: "Values option"
  PostForm :: "Values option"

definition MethodPost :: string where "MethodPost = ''POST''"
definition MethodPut :: string where "MethodPut = ''PUT''"
definition MethodPatch :: string where "MethodPatch = ''PATCH''"

text \<open>The form-size limit of \<^verbatim>\<open>parsePostForm\<close>, \<^verbatim>\<open>10 << 20\<close> bytes.\<close>

definition maxFormSize :: nat where
  "maxFormSize = 10 * 2 ^ 20"

text \<open>
  \<^verbatim>\<open>parsePostForm\<close>: the form in the body of a request, and the request with its
  body read. The body is read through a limit of one byte more than \<^const>\<open>maxFormSize\<close>
  (the bodies met here are never a \<^verbatim>\<open>MaxBytesReader\<close>, which lifts the limit).
\<close>

definition parsePostForm :: "Request \<Rightarrow> (Values option \<times> error option) \<times> Request" where
  "parsePostForm r =
     (case Body r of
        None \<Rightarrow> ((None, Some MissingFormBody), r)
      | Some body \<Rightarrow>
         (let ct = Header_Get (Header r) ''Content-Type'';
              ct = (if ct = '''' then ''application/octet-stream'' else ct);
              (ct, err) = ParseMediaType ct in
          if ct = ''application/x-www-form-urlencoded'' then
            (case ReadAll_Limit (maxFormSize + 1) body of
               ((b, Some e), body') \<Rightarrow>
                 ((None, if err = None then Some e else err), r\<lparr>Body := Some body'\<rparr>)
             | ((b, None), body') \<Rightarrow>
                 (if maxFormSize < length b
                  then ((None, Some PostTooLarge), r\<lparr>Body := Some body'\<rparr>)
                  else (let (vs, e) = ParseQuery b in
                        ((Some vs, if err = None then e else err),
                         r\<lparr>Body := Some body'\<rparr>))))
          else ((None, err), r)))"

text \<open>
  \<^verbatim>\<open>Request.ParseForm\<close>: fills \<open>PostForm\<close> from the body of a POST, PUT or PATCH
  request unless it is set already, then fills \<open>Form\<close>, unless it is set already, with
  the values of \<open>PostForm\<close> followed by those of the URL's query string. It returns the
  first error met.
\<close>

definition ParseForm :: "Request \<Rightarrow> Request \<times> error option" where
  "ParseForm r =
     (let (r, err) =
        (case PostForm r of
           Some _ \<Rightarrow> (r, None)
         | None \<Rightarrow>
            (let (r, err) =
               (if Method r = ''POST'' \<or> Method r = ''PUT'' \<or> Method r = ''PATCH''
                then (case parsePostForm r of ((vs, err), r') \<Rightarrow> (r'\<lparr>PostForm := vs\<rparr>, err))
                else (r, None))
             in (if PostForm r = None then r\<lparr>PostForm := Some []\<rparr> else r, err)))
      in
      case Form r of
        Some _ \<Rightarrow> (r, err)
      | None \<Rightarrow>
         (let post = (case PostForm r of None \<Rightarrow> [] | Some p \<Rightarrow> p);
              (newValues, err) =
                (case URL r of
                   None \<Rightarrow> ([], err)
                 | Some u \<Rightarrow>
                    (let (nv, e) = ParseQuery (RawQuery u) in
                     (nv, if err = None then e else err)))
          in (r\<lparr>Form := Some (if 0 < length post
                                then copyValues (copyValues [] post) newValues
                                else newValues)\<rparr>,
              err)))"

text \<open>\<^verbatim>\<open>Request.BasicAuth\<close> reads the \<^verbatim>\<open>Authorization\<close> header.\<close>

definition BasicAuth :: "Request \<Rightarrow> string \<times> string \<times> bool" where
  "BasicAuth r = BasicAuth_of (Header r)"

text \<open>\<^verbatim>\<open>req.Form.Get(key)\<close>; a nil map reads as an empty one.\<close>

definition Form_Get :: "Request \<Rightarrow> string \<Rightarrow> string" where
  "Form_Get r key = Values_Get (case Form r of None \<Rightarrow> [] | Some f \<Rightarrow> f) key"

subsection \<open>The Bearer-token parser\<close>

definition GetClientIDFromBearerToken :: "string \<Rightarrow> string \<times> error option" where
  "GetClientIDFromBearerToken token =
     (let fields = Split token ''.'' in
      if length fields \<noteq> 2 then ('''', Some InvalidBearerTokenErr)
      else let clientID = fields ! 0 in
        if clientID = '''' then ('''', Some InvalidBearerTokenErr)
        else (clientID, None))"

subsection \<open>The extractor\<close>

definition bearerPrefix :: string where "bearerPrefix = ''Bearer ''"
definition formContentType :: string where
  "formContentType = ''application/x-www-form-urlencoded''"
definition clientIDKey :: string where "clientIDKey = ''client_id''"
definition contentTypeHeaderKey :: string where "contentTypeHeaderKey = ''Content-Type''"

text \<open>
  The two places where the code looks \<^verbatim>\<open>client_id\<close> up in the form end the same way:
  a non-empty value is returned, an empty one falls through to the last line of the
  function, which returns \<^verbatim>\<open>MissingClientIDErr\<close>.
\<close>

definition lookupForm :: "Request \<Rightarrow> string \<times> Request option \<times> error option" where
  "lookupForm req =
     (let clientID = Form_Get req clientIDKey in
      if clientID \<noteq> '''' then (clientID, Some req, None)
      else ('''', Some req, Some MissingClientIDErr))"

text \<open>
  The arm of the switch for POST, PATCH and PUT in \<^verbatim>\<open>src/request_context.go\<close>,
  up to the return it leads to.
\<close>

definition formBranch :: "Request \<Rightarrow> string \<times> Request option \<times> error option" where
  "formBranch req =
     (let (mimetype, _) = ParseMediaType (Header_Get (Header req) contentTypeHeaderKey) in
      if mimetype = formContentType \<and> Body req \<noteq> None then
        (if Form req = None then
           (case ReadAll (the (Body req)) of
              ((bodyBytes, Some err), body') \<Rightarrow>
                ('''', Some (req\<lparr>Body := Some body'\<rparr>),
                 Some (Errorf ''restplay: failed to read request body'' err))
            | ((bodyBytes, None), body') \<Rightarrow>
                (case ParseForm (req\<lparr>Body := Some (NewBuffer bodyBytes)\<rparr>) of
                   (req, Some err) \<Rightarrow>
                     ('''', Some (req\<lparr>Body := Some (NewBuffer bodyBytes)\<rparr>),
                      Some (Errorf ''restplay: failed to parse request form from body'' err))
                 | (req, None) \<Rightarrow>
                     lookupForm (req\<lparr>Body := Some (NewBuffer bodyBytes)\<rparr>)))
         else lookupForm req)
      else ('''', Some req, Some MissingClientIDErr))"

text \<open>The default arm of the switch, up to the return it leads to.\<close>

definition queryBranch :: "Request \<Rightarrow> string \<times> Request option \<times> error option" where
  "queryBranch req =
     (if Form req = None then
        (case ParseForm req of
           (req, Some err) \<Rightarrow>
             ('''', Some req,
              Some (Errorf ''restplay: failed to parse request form from URL'' err))
         | (req, None) \<Rightarrow> lookupForm req)
      else lookupForm req)"

text \<open>
  \<^verbatim>\<open>GetClientID\<close> of \<^verbatim>\<open>src/request_context.go\<close>. The argument is the pointer
  \<^verbatim>\<open>req\<close> (\<open>None\<close> for nil). The request is changed in place and returned: the second
  component of the result is the request as the call leaves it.
\<close>

definition GetClientID :: "Request option \<Rightarrow> string \<times> Request option \<times> error option" where
  "GetClientID reqp =
     (case reqp of
        None \<Rightarrow> ('''', None, Some NilRequestErr)
      | Some req \<Rightarrow>
         (case BasicAuth req of (clientID, _, ok) \<Rightarrow>
          if ok \<and> clientID \<noteq> '''' then (clientID, Some req, None)
          else
            let auth = Header_Get (Header req) ''Authorization'' in
            if HasPrefix auth bearerPrefix then
              (let token = TrimPrefix auth bearerPrefix;
                   (clientID, err) = GetClientIDFromBearerToken token
               in (clientID, Some req, err))
            else if Method req = MethodPost \<or> Method req = MethodPatch
                    \<or> Method req = MethodPut
              then formBranch req
            else queryBranch req))"

text \<open>
  \<^verbatim>\<open>GetClientID\<close> of \<^verbatim>\<open>src/unnamed/part_001\<close>, a revision that returns the identity
  and the error only and looks the form up once, after the switch; a POST, PUT or PATCH
  request that is not a form gets an empty \<open>Form\<close> when it has none. The second component
  of the result is the caller's request as the call leaves it.
\<close>

definition formBranch_part_001 :: "Request \<Rightarrow> string \<times> Request option \<times> error option"
where
  "formBranch_part_001 req =
     (let (mimetype, _) = ParseMediaType (Header_Get (Header req) contentTypeHeaderKey) in
      if mimetype = formContentType \<and> Body req \<noteq> None then
        (if Form req = None then
           (case ReadAll (the (Body req)) of
              ((bodyBytes, Some err), body') \<Rightarrow>
                ('''', Some (req\<lparr>Body := Some body'\<rparr>),
                 Some (Errorf ''restplay: failed to read request body'' err))
            | ((bodyBytes, None), body') \<Rightarrow>
                (case ParseForm (req\<lparr>Body := Some (NewBuffer bodyBytes)\<rparr>) of
                   (req, Some err) \<Rightarrow>
                     ('''', Some (req\<lparr>Body := Some (NewBuffer bodyBytes)\<rparr>),
                      Some (Errorf ''restplay: failed to parse request form from body'' err))
                 | (req, None) \<Rightarrow>
                     lookupForm (req\<lparr>Body := Some (NewBuffer bodyBytes)\<rparr>)))
         else lookupForm req)
      else
        (if Form req = None then lookupForm (req\<lparr>Form := Some []\<rparr>)
         else lookupForm req))"

definition GetClientID_part_001 ::
  "Request option \<Rightarrow> string \<times> Request option \<times> error option" where
  "GetClientID_part_001 reqp =
     (case reqp of
        None \<Rightarrow> ('''', None, Some NilRequestErr)
      | Some req \<Rightarrow>
         (case BasicAuth req of (clientID, _, ok) \<Rightarrow>
          if ok \<and> clientID \<noteq> '''' then (clientID, Some req, None)
          else
            let auth = Header_Get (Header req) ''Authorization'' in
            if HasPrefix auth bearerPrefix then
              (case GetClientIDFromBearerToken (TrimPrefix auth bearerPrefix) of
                 (clientID, err) \<Rightarrow> (clientID, Some req, err))
            else if Method req = MethodPost \<or> Method req = MethodPatch
                    \<or> Method req = MethodPut
              then formBranch_part_001 req
            else queryBranch req))"

text \<open>
  What the caller gets when it reads the body of the request after the call, as the
  package's test does with \<^verbatim>\<open>io.ReadAll(req.Body)\<close>: the bytes and the error, if
  there is a body.
\<close>

definition afterBody :: "Request option \<Rightarrow> (string \<times> error option) option" where
  "afterBody reqp =
     (case reqp of
        None \<Rightarrow> None
      | Some req \<Rightarrow> (case Body req of None \<Rightarrow> None | Some rd \<Rightarrow> Some (fst (ReadAll rd))))"

text \<open>The errors that \<^verbatim>\<open>GetClientID\<close> itself makes: its three sentinels and the
  wrapped errors of reading and parsing.\<close>

fun result_error :: "error \<Rightarrow> bool" where
  "result_error NilRequestErr = True"
| "result_error InvalidBearerTokenErr = True"
| "result_error MissingClientIDErr = True"
| "result_error (Errorf msg cause) = True"
| "result_error _ = False"

text \<open>
  Two requests that agree on every field other than \<open>Body\<close>, \<open>Form\<close> and
  \<open>PostForm\<close>.
\<close>

definition sameOtherFields :: "Request \<Rightarrow> Request \<Rightarrow> bool" where
  "sameOtherFields r r' =
     (Method r' = Method r \<and> URL r' = URL r \<and> Header r' = Header r
      \<and> ContentLength r' = ContentLength r)"

subsection \<open>Example requests\<close>

text \<open>
  A request as \<^verbatim>\<open>http.NewRequest\<close> builds it, with a method, a raw query string,
  headers and a body, and no form parsed yet.
\<close>

definition request :: "string \<Rightarrow> string \<Rightarrow> header \<Rightarrow> reader option \<Rightarrow> Request" where
  "request method query hdr body =
     \<lparr>Method = method, URL = Some \<lparr>Path = ''/'', RawQuery = query\<rparr>, Header = hdr,
      Body = body, ContentLength = 0, Form = None, PostForm = None\<rparr>"

definition formHeader :: header where
  "formHeader = [(''Content-Type'', [''application/x-www-form-urlencoded''])]"

definition charsetHeader :: header where
  "charsetHeader = [(''Content-Type'', [''application/x-www-form-urlencoded; charset=UTF-8''])]"

definition basicHeader :: header where
  "basicHeader = [(''Authorization'', [''Basic Ym9iOnNlY3JldA=='', ''Bearer tok.rest'']),
                  (''Content-Type'', [''application/x-www-form-urlencoded''])]"

definition bearerHeader :: "string \<Rightarrow> header" where
  "bearerHeader token = [(''Authorization'', [''Bearer '' @ token]),
                         (''Content-Type'', [''application/x-www-form-urlencoded''])]"

lemmas byte_defs = code_def byte_def lower_def ToLower_def IsSpace_def TrimLeft_def
  TrimSpace_def HasPrefix_def TrimPrefix_def

lemmas auth_defs = BasicAuth_def BasicAuth_of_def Header_Get_def parseBasicAuth_def
  DecodeString_def b64val_def

lemmas mime_defs = ParseMediaType_def checkMediaTypeDisposition_def consumeToken_def
  consumeMediaParam_def consumeValue_def isTokenChar_def isTSpecial_def params_loop.simps

lemmas url_defs = ParseQuery_def parseQuery.simps parsePair_def ishex_def unhex_def
  Values_Get_def copyValues_def

lemmas req_defs = ParseForm_def parsePostForm_def ReadAll_def ReadAll_Limit_def
  NewBuffer_def maxFormSize_def Form_Get_def MethodPost_def MethodPut_def MethodPatch_def
  bearerPrefix_def formContentType_def clientIDKey_def contentTypeHeaderKey_def
  lookupForm_def formBranch_def queryBranch_def formBranch_part_001_def afterBody_def
  request_def formHeader_def charsetHeader_def basicHeader_def bearerHeader_def

lemmas eval_defs = byte_defs auth_defs mime_defs url_defs req_defs
  GetClientIDFromBearerToken_def Split.simps Let_def


section \<open>Properties\<close>

subsection \<open>Splitting on one byte\<close>

lemma Cut_byte:
  "Cut s [c] = (takeWhile (\<lambda>x. x \<noteq> c) s, drop 1 (dropWhile (\<lambda>x. x \<noteq> c) s), c \<in> set s)"
  by (induction s) (auto split: prod.splits)

lemma Split_byte:
  "Split s [c] =
     (if c \<in> set s
      then takeWhile (\<lambda>x. x \<noteq> c) s # Split (drop 1 (dropWhile (\<lambda>x. x \<noteq> c) s)) [c]
      else [s])"
proof -
  have "c \<notin> set s \<Longrightarrow> takeWhile (\<lambda>x. x \<noteq> c) s = s"
    by (induction s) auto
  then show ?thesis
    by (subst Split.simps) (simp add: Cut_byte)
qed

lemma Split_without: "c \<notin> set s \<Longrightarrow> Split s [c] = [s]"
  by (subst Split_byte) simp

lemma Split_first: "c \<notin> set a \<Longrightarrow> Split (a @ c # b) [c] = a # Split b [c]"
proof -
  assume a: "c \<notin> set a"
  then have "takeWhile (\<lambda>x. x \<noteq> c) (a @ c # b) = a"
    by (induction a) auto
  moreover from a have "dropWhile (\<lambda>x. x \<noteq> c) (a @ c # b) = c # b"
    by (induction a) auto
  ultimately show ?thesis
    by (subst Split_byte) simp
qed

lemma Split_nonempty: "Split s [c] \<noteq> []"
  by (subst Split_byte) simp

lemma Split_singleton: "length (Split s [c]) = 1 \<Longrightarrow> c \<notin> set s"
proof (rule ccontr)
  assume len: "length (Split s [c]) = 1" and "\<not> c \<notin> set s"
  then have "Split s [c] =
      takeWhile (\<lambda>x. x \<noteq> c) s # Split (drop 1 (dropWhile (\<lambda>x. x \<noteq> c) s)) [c]"
    by (subst Split_byte) simp
  with len have "Split (drop 1 (dropWhile (\<lambda>x. x \<noteq> c) s)) [c] = []"
    by simp
  with Split_nonempty show False by blast
qed

text \<open>
  Two fields are what a token with exactly one dot splits into: the text before the
  dot and the text after it.
\<close>

lemma Split_two:
  "Split s [c] = [a, b] \<longleftrightarrow> s = a @ c # b \<and> c \<notin> set a \<and> c \<notin> set b"
proof
  assume two: "Split s [c] = [a, b]"
  have mem: "c \<in> set s"
  proof (rule ccontr)
    assume "c \<notin> set s"
    with two show False by (simp add: Split_without)
  qed
  let ?t = "takeWhile (\<lambda>x. x \<noteq> c) s" and ?d = "dropWhile (\<lambda>x. x \<noteq> c) s"
  from mem two have eq: "?t # Split (drop 1 ?d) [c] = [a, b]"
    by (subst (asm) Split_byte) simp
  then have a: "a = ?t" and rest: "Split (drop 1 ?d) [c] = [b]"
    by simp_all
  from rest have "length (Split (drop 1 ?d) [c]) = 1" by simp
  then have nb: "c \<notin> set (drop 1 ?d)" by (rule Split_singleton)
  with rest have b: "b = drop 1 ?d" by (simp add: Split_without)
  from mem have "?d \<noteq> []" by (auto simp: dropWhile_eq_Nil_conv)
  then have "hd ?d = c" using hd_dropWhile [of "\<lambda>x. x \<noteq> c" s] by blast
  with \<open>?d \<noteq> []\<close> have "?d = c # drop 1 ?d"
    by (cases ?d) simp_all
  then have "s = ?t @ c # drop 1 ?d"
    by (metis takeWhile_dropWhile_id)
  moreover have "c \<notin> set ?t"
    by (auto dest: set_takeWhileD)
  ultimately show "s = a @ c # b \<and> c \<notin> set a \<and> c \<notin> set b"
    using a b nb by simp
next
  assume "s = a @ c # b \<and> c \<notin> set a \<and> c \<notin> set b"
  then show "Split s [c] = [a, b]"
    by (simp add: Split_first Split_without)
qed

subsection \<open>The Bearer-token parser\<close>

lemma bearer_result_shape:
  "GetClientIDFromBearerToken token = (clientID, err) \<Longrightarrow>
     (clientID \<noteq> '''' \<and> err = None) \<or> (clientID = '''' \<and> err = Some InvalidBearerTokenErr)"
  by (auto simp: GetClientIDFromBearerToken_def Let_def split: if_splits)

text \<open>
  The parser accepts exactly the tokens \<open>id.rest\<close> with one dot and a non-empty
  \<open>id\<close>, and returns \<open>id\<close>.
\<close>

lemma bearer_accepts_iff:
  "GetClientIDFromBearerToken token = (clientID, None) \<longleftrightarrow>
     clientID \<noteq> '''' \<and> CHR ''.'' \<notin> set clientID \<and>
     (\<exists>rest. token = clientID @ CHR ''.'' # rest \<and> CHR ''.'' \<notin> set rest)"
proof
  assume ok: "GetClientIDFromBearerToken token = (clientID, None)"
  then have len: "length (Split token ''.'') = 2"
    and first: "Split token ''.'' ! 0 = clientID" and ne: "clientID \<noteq> ''''"
    by (auto simp: GetClientIDFromBearerToken_def Let_def split: if_splits)
  from len obtain a b where ab: "Split token ''.'' = [a, b]"
    by (cases "Split token ''.''" rule: list.exhaust)
       (auto simp: length_Suc_conv)
  with first have "a = clientID" by simp
  with ab ne show "clientID \<noteq> '''' \<and> CHR ''.'' \<notin> set clientID \<and>
     (\<exists>rest. token = clientID @ CHR ''.'' # rest \<and> CHR ''.'' \<notin> set rest)"
    by (auto simp: Split_two)
next
  assume "clientID \<noteq> '''' \<and> CHR ''.'' \<notin> set clientID \<and>
     (\<exists>rest. token = clientID @ CHR ''.'' # rest \<and> CHR ''.'' \<notin> set rest)"
  then obtain rest where "Split token ''.'' = [clientID, rest]" and "clientID \<noteq> ''''"
    by (auto simp: Split_two)
  then show "GetClientIDFromBearerToken token = (clientID, None)"
    by (simp add: GetClientIDFromBearerToken_def)
qed

text \<open>
  Claim C5. For every token, the Bearer-token parser splits the token on the dot; when
  the split has exactly two fields and the first field is not empty, it returns the
  first field and no error; in every other case it returns the empty string and
  \<open>InvalidBearerTokenErr\<close>.
\<close>

theorem bearer_parser_splits:
  "GetClientIDFromBearerToken token =
     (if length (Split token ''.'') = 2 \<and> Split token ''.'' ! 0 \<noteq> ''''
      then (Split token ''.'' ! 0, None)
      else ('''', Some InvalidBearerTokenErr))"
  by (simp add: GetClientIDFromBearerToken_def Let_def)

theorem bearer_parser_splits_witness:
  "GetClientIDFromBearerToken ''robbie.othertokenstuffhere'' = (''robbie'', None)
   \<and> GetClientIDFromBearerToken ''.othertokenstuffhere'' = ('''', Some InvalidBearerTokenErr)
   \<and> GetClientIDFromBearerToken ''a.b.c'' = ('''', Some InvalidBearerTokenErr)"
  using bearer_parser_splits [of "''robbie.othertokenstuffhere''"]
    bearer_parser_splits [of "''.othertokenstuffhere''"]
    bearer_parser_splits [of "''a.b.c''"]
  by (simp add: Split.simps)

subsection \<open>The stages of the extractor\<close>

lemma lookupForm_shape:
  "lookupForm req = (clientID, reqp, err) \<Longrightarrow>
     reqp = Some req \<and>
     ((clientID \<noteq> '''' \<and> err = None) \<or> (clientID = '''' \<and> err = Some MissingClientIDErr))"
  by (auto simp: lookupForm_def Let_def split: if_splits)

lemma parsePostForm_frame:
  "parsePostForm r = (res, r') \<Longrightarrow> r' = r\<lparr>Body := Body r'\<rparr>"
  unfolding parsePostForm_def
  by (auto simp: Let_def split: option.splits prod.splits if_splits)

lemma ParseForm_frame:
  "ParseForm r = (r', e) \<Longrightarrow>
     r' = r\<lparr>Body := Body r', Form := Form r', PostForm := PostForm r'\<rparr>"
  unfolding ParseForm_def
  by (auto simp: Let_def split: option.splits prod.splits if_splits dest!: parsePostForm_frame)

lemma GetClientID_bearer:
  assumes "\<not> (snd (snd (BasicAuth req)) \<and> fst (BasicAuth req) \<noteq> '''')"
    and "HasPrefix (Header_Get (Header req) ''Authorization'') bearerPrefix"
  shows "GetClientID (Some req) =
           (case GetClientIDFromBearerToken
                   (TrimPrefix (Header_Get (Header req) ''Authorization'') bearerPrefix) of
              (clientID, err) \<Rightarrow> (clientID, Some req, err))"
proof -
  obtain u p ok where ba: "BasicAuth req = (u, p, ok)"
    by (cases "BasicAuth req")
  with assms(1) have no: "\<not> (ok \<and> u \<noteq> [])"
    by simp
  from ba no assms(2) show ?thesis
    by (auto simp: GetClientID_def Let_def)
qed

lemma GetClientID_form:
  assumes "\<not> (snd (snd (BasicAuth req)) \<and> fst (BasicAuth req) \<noteq> '''')"
    and "\<not> HasPrefix (Header_Get (Header req) ''Authorization'') bearerPrefix"
    and "Method req = MethodPost \<or> Method req = MethodPatch \<or> Method req = MethodPut"
  shows "GetClientID (Some req) = formBranch req"
    and "GetClientID_part_001 (Some req) = formBranch_part_001 req"
proof -
  obtain u p ok where ba: "BasicAuth req = (u, p, ok)"
    by (cases "BasicAuth req")
  with assms(1) have no: "\<not> (ok \<and> u \<noteq> [])"
    by simp
  from ba no assms(2,3) show "GetClientID (Some req) = formBranch req"
    by (auto simp: GetClientID_def Let_def)
  from ba no assms(2,3) show "GetClientID_part_001 (Some req) = formBranch_part_001 req"
    by (auto simp: GetClientID_part_001_def Let_def)
qed

lemma GetClientID_query:
  assumes "\<not> (snd (snd (BasicAuth req)) \<and> fst (BasicAuth req) \<noteq> '''')"
    and "\<not> HasPrefix (Header_Get (Header req) ''Authorization'') bearerPrefix"
    and "\<not> (Method req = MethodPost \<or> Method req = MethodPatch \<or> Method req = MethodPut)"
  shows "GetClientID (Some req) = queryBranch req"
    and "GetClientID_part_001 (Some req) = queryBranch req"
proof -
  obtain u p ok where ba: "BasicAuth req = (u, p, ok)"
    by (cases "BasicAuth req")
  with assms(1) have no: "\<not> (ok \<and> u \<noteq> [])"
    by simp
  from ba no assms(2,3) show "GetClientID (Some req) = queryBranch req"
    by (auto simp: GetClientID_def Let_def)
  from ba no assms(2,3) show "GetClientID_part_001 (Some req) = queryBranch req"
    by (auto simp: GetClientID_part_001_def Let_def)
qed

text \<open>
  Claim C2. For every non-nil request that carries Basic-Auth credentials with a non-empty
  username, \<^verbatim>\<open>GetClientID\<close> returns that username and no error, whatever else the
  request holds: a Bearer value under \<^verbatim>\<open>Authorization\<close>, a form body, a
  \<^verbatim>\<open>client_id\<close> in the query string.
\<close>

theorem basic_auth_wins:
  assumes "BasicAuth req = (username, password, True)" and "username \<noteq> ''''"
  shows "GetClientID (Some req) = (username, Some req, None)"
  using assms by (simp add: GetClientID_def)

theorem basic_auth_wins_witness:
  "BasicAuth (request ''POST'' ''client_id=fromquery'' basicHeader (Some (NewBuffer ''client_id=fromform'')))
     = (''bob'', ''secret'', True)
   \<and> ''bob'' \<noteq> ''''
   \<and> GetClientID (Some (request ''POST'' ''client_id=fromquery'' basicHeader
          (Some (NewBuffer ''client_id=fromform''))))
     = (''bob'', Some (request ''POST'' ''client_id=fromquery'' basicHeader
          (Some (NewBuffer ''client_id=fromform''))), None)"
proof -
  have h: "BasicAuth (request ''POST'' ''client_id=fromquery'' basicHeader
              (Some (NewBuffer ''client_id=fromform''))) = (''bob'', ''secret'', True)"
    by (simp add: eval_defs)
  from basic_auth_wins [OF h] h show ?thesis by simp
qed

text \<open>
  Claim C3. For every non-nil request without usable Basic-Auth whose
  \<^verbatim>\<open>Authorization\<close> header starts with \<^verbatim>\<open>Bearer \<close>, the result of
  \<^verbatim>\<open>GetClientID\<close> is the result of the Bearer-token parser on the rest of the header;
  a token that the parser rejects gives \<open>InvalidBearerTokenErr\<close>, and the form and the
  query string are not looked at.
\<close>

theorem bearer_short_circuits:
  assumes "\<not> (snd (snd (BasicAuth req)) \<and> fst (BasicAuth req) \<noteq> '''')"
    and "HasPrefix (Header_Get (Header req) ''Authorization'') ''Bearer ''"
  shows "GetClientID (Some req) =
           (fst (GetClientIDFromBearerToken (drop 7 (Header_Get (Header req) ''Authorization''))),
            Some req,
            snd (GetClientIDFromBearerToken (drop 7 (Header_Get (Header req) ''Authorization''))))
         \<and> (snd (GetClientIDFromBearerToken (drop 7 (Header_Get (Header req) ''Authorization'')))
               \<noteq> None
             \<longrightarrow> GetClientID (Some req) = ('''', Some req, Some InvalidBearerTokenErr))"
proof -
  let ?auth = "Header_Get (Header req) ''Authorization''"
  from assms(2) have pre: "HasPrefix ?auth bearerPrefix"
    by (simp add: bearerPrefix_def)
  then have trim: "TrimPrefix ?auth bearerPrefix = drop 7 ?auth"
    by (simp add: TrimPrefix_def) (simp add: bearerPrefix_def eval_nat_numeral)
  obtain c e where ce: "GetClientIDFromBearerToken (drop 7 ?auth) = (c, e)"
    by (cases "GetClientIDFromBearerToken (drop 7 ?auth)")
  from GetClientID_bearer [OF assms(1) pre] have "GetClientID (Some req) = (c, Some req, e)"
    by (simp only: trim ce prod.case)
  with bearer_result_shape [OF ce] show ?thesis
    by (auto simp only: ce fst_conv snd_conv)
qed


theorem bearer_short_circuits_witness:
  "\<not> (snd (snd (BasicAuth (request ''POST'' ''client_id=fromquery'' (bearerHeader ''a.b.c'')
            (Some (NewBuffer ''client_id=fromform'')))))
       \<and> fst (BasicAuth (request ''POST'' ''client_id=fromquery'' (bearerHeader ''a.b.c'')
            (Some (NewBuffer ''client_id=fromform'')))) \<noteq> '''')
   \<and> HasPrefix (Header_Get (Header (request ''POST'' ''client_id=fromquery''
          (bearerHeader ''a.b.c'') (Some (NewBuffer ''client_id=fromform'')))) ''Authorization'')
        ''Bearer ''
   \<and> GetClientID (Some (request ''POST'' ''client_id=fromquery'' (bearerHeader ''a.b.c'')
          (Some (NewBuffer ''client_id=fromform''))))
     = ('''', Some (request ''POST'' ''client_id=fromquery'' (bearerHeader ''a.b.c'')
          (Some (NewBuffer ''client_id=fromform''))), Some InvalidBearerTokenErr)"
proof -
  let ?req = "request ''POST'' ''client_id=fromquery'' (bearerHeader ''a.b.c'')
                (Some (NewBuffer ''client_id=fromform''))"
  have h1: "\<not> (snd (snd (BasicAuth ?req)) \<and> fst (BasicAuth ?req) \<noteq> '''')"
    by (simp add: eval_defs)
  have h2: "HasPrefix (Header_Get (Header ?req) ''Authorization'') ''Bearer ''"
    by (simp add: eval_defs)
  have h3: "snd (GetClientIDFromBearerToken (drop 7 (Header_Get (Header ?req) ''Authorization'')))
              \<noteq> None"
    by (simp add: eval_defs)
  from bearer_short_circuits [OF h1 h2] h3
  have "GetClientID (Some ?req) = ('''', Some ?req, Some InvalidBearerTokenErr)"
    by (rule_tac mp [OF conjunct2])
  with h1 h2 show ?thesis by (intro conjI)
qed

lemma formBranch_shape:
  "formBranch req = (clientID, reqp, err) \<Longrightarrow>
     (clientID \<noteq> '''' \<and> err = None)
     \<or> (clientID = '''' \<and> (case err of None \<Rightarrow> False | Some e \<Rightarrow> result_error e))"
  unfolding formBranch_def
  by (auto simp: Let_def split: option.splits prod.splits if_splits dest!: lookupForm_shape)

lemma queryBranch_shape:
  "queryBranch req = (clientID, reqp, err) \<Longrightarrow>
     (clientID \<noteq> '''' \<and> err = None)
     \<or> (clientID = '''' \<and> (case err of None \<Rightarrow> False | Some e \<Rightarrow> result_error e))"
  unfolding queryBranch_def
  by (auto simp: Let_def split: option.splits prod.splits if_splits dest!: lookupForm_shape)

text \<open>
  Claim C6. For every request, nil or not, \<^verbatim>\<open>GetClientID\<close> returns either a
  non-empty identity and no error, or the empty string and an error, which is one of the
  three sentinel errors or a wrapped read or parse error.
\<close>

theorem result_shape:
  "case GetClientID reqp of
     (clientID, _, err) \<Rightarrow>
       (clientID \<noteq> '''' \<and> err = None)
       \<or> (clientID = '''' \<and> (case err of None \<Rightarrow> False | Some e \<Rightarrow> result_error e))"
proof (cases reqp)
  case None
  then show ?thesis by (simp add: GetClientID_def)
next
  case (Some req)
  let ?auth = "Header_Get (Header req) ''Authorization''"
  consider (basic) "snd (snd (BasicAuth req)) \<and> fst (BasicAuth req) \<noteq> ''''"
    | (bearer) "\<not> (snd (snd (BasicAuth req)) \<and> fst (BasicAuth req) \<noteq> '''')"
        "HasPrefix ?auth bearerPrefix"
    | (form) "\<not> (snd (snd (BasicAuth req)) \<and> fst (BasicAuth req) \<noteq> '''')"
        "\<not> HasPrefix ?auth bearerPrefix"
        "Method req = MethodPost \<or> Method req = MethodPatch \<or> Method req = MethodPut"
    | (query) "\<not> (snd (snd (BasicAuth req)) \<and> fst (BasicAuth req) \<noteq> '''')"
        "\<not> HasPrefix ?auth bearerPrefix"
        "\<not> (Method req = MethodPost \<or> Method req = MethodPatch \<or> Method req = MethodPut)"
    by blast
  then show ?thesis
  proof cases
    case basic
    then show ?thesis
      unfolding Some by (cases "BasicAuth req") (simp add: GetClientID_def)
  next
    case bearer
    obtain c e where ce: "GetClientIDFromBearerToken (TrimPrefix ?auth bearerPrefix) = (c, e)"
      by (cases "GetClientIDFromBearerToken (TrimPrefix ?auth bearerPrefix)")
    from bearer_result_shape [OF ce] show ?thesis
      unfolding Some GetClientID_bearer [OF bearer] ce by auto
  next
    case form
    obtain c rp e where b: "formBranch req = (c, rp, e)"
      by (cases "formBranch req")
    from formBranch_shape [OF b] show ?thesis
      unfolding Some GetClientID_form(1) [OF form] b by simp
  next
    case query
    obtain c rp e where b: "queryBranch req = (c, rp, e)"
      by (cases "queryBranch req")
    from queryBranch_shape [OF b] show ?thesis
      unfolding Some GetClientID_query(1) [OF query] b by simp
  qed
qed

theorem result_shape_witness:
  "GetClientID (Some (request ''GET'' ''client_id=robbie-other-client-id'' [] None))
     = (''robbie-other-client-id'',
        Some ((request ''GET'' ''client_id=robbie-other-client-id'' [] None)
               \<lparr>Form := Some [(''client_id'', [''robbie-other-client-id''])],
                PostForm := Some []\<rparr>),
        None)
   \<and> GetClientID (Some (request ''GET'' '''' [] None))
     = ('''', Some ((request ''GET'' '''' [] None)\<lparr>Form := Some [], PostForm := Some []\<rparr>),
        Some MissingClientIDErr)
   \<and> GetClientID None = ('''', None, Some NilRequestErr)"
  using result_shape [of "Some (request ''GET'' ''client_id=robbie-other-client-id'' [] None)"]
    result_shape [of "Some (request ''GET'' '''' [] None)"] result_shape [of None]
  by (simp add: GetClientID_def eval_defs)

subsection \<open>What the call changes in the request\<close>

lemma lookupForm_request: "fst (snd (lookupForm req)) = Some req"
  by (simp add: lookupForm_def Let_def)

lemma sameOtherFields_iff:
  "sameOtherFields r r' \<longleftrightarrow>
     r' = r\<lparr>Body := Body r', Form := Form r', PostForm := PostForm r'\<rparr>"
  by (cases r, cases r') (auto simp: sameOtherFields_def)

lemma parsePostForm_same:
  "parsePostForm r = (res, r') \<Longrightarrow> sameOtherFields r r' \<and> Form r' = Form r \<and> PostForm r' = PostForm r"
  unfolding parsePostForm_def sameOtherFields_def
  by (auto simp: Let_def split: option.splits prod.splits if_splits)

lemma ParseForm_same: "ParseForm r = (r', e) \<Longrightarrow> sameOtherFields r r'"
  unfolding ParseForm_def sameOtherFields_def
  by (auto simp: Let_def sameOtherFields_def split: option.splits prod.splits if_splits
      dest!: parsePostForm_same)

lemma formBranch_frame:
  "\<exists>req'. fst (snd (formBranch req)) = Some req' \<and> sameOtherFields req req'"
  unfolding formBranch_def
  by (auto simp: Let_def lookupForm_request sameOtherFields_def
      split: option.splits prod.splits if_splits dest!: ParseForm_same)

lemma formBranch_part_001_frame:
  "\<exists>req'. fst (snd (formBranch_part_001 req)) = Some req' \<and> sameOtherFields req req'"
  unfolding formBranch_part_001_def
  by (auto simp: Let_def lookupForm_request sameOtherFields_def
      split: option.splits prod.splits if_splits dest!: ParseForm_same)

lemma queryBranch_frame:
  "\<exists>req'. fst (snd (queryBranch req)) = Some req' \<and> sameOtherFields req req'"
  unfolding queryBranch_def
  by (auto simp: Let_def lookupForm_request sameOtherFields_def
      split: option.splits prod.splits if_splits dest!: ParseForm_same)

lemma GetClientID_untouched:
  assumes "(snd (snd (BasicAuth req)) \<and> fst (BasicAuth req) \<noteq> '''')
           \<or> HasPrefix (Header_Get (Header req) ''Authorization'') bearerPrefix"
  shows "fst (snd (GetClientID (Some req))) = Some req"
    and "fst (snd (GetClientID_part_001 (Some req))) = Some req"
proof -
  obtain u p ok where ba: "BasicAuth req = (u, p, ok)"
    by (cases "BasicAuth req")
  from ba assms show "fst (snd (GetClientID (Some req))) = Some req"
    by (auto simp: GetClientID_def Let_def split: prod.splits)
  from ba assms show "fst (snd (GetClientID_part_001 (Some req))) = Some req"
    by (auto simp: GetClientID_part_001_def Let_def split: prod.splits)
qed

subsection \<open>The body after the call\<close>

lemma formBranch_body:
  assumes "Body req = Some rd" and "fault rd = None"
  shows "afterBody (fst (snd (formBranch req))) = Some (pending rd, None)"
    and "afterBody (fst (snd (formBranch_part_001 req))) = Some (pending rd, None)"
  using assms unfolding formBranch_def formBranch_part_001_def
  by (auto simp: Let_def lookupForm_request afterBody_def ReadAll_def NewBuffer_def
      split: option.splits prod.splits if_splits)

text \<open>
  Claim C1, amended. For every POST, PUT or PATCH request whose Content-Type has the
  media type of a URL-encoded form and whose body can be read to its end without an
  error, reading the body after \<^verbatim>\<open>GetClientID\<close> has returned gives exactly the bytes
  of the body, whether the call returned an identity or an error, a form-parse error
  included.
\<close>

theorem body_restored_after_read:
  assumes "Method req = MethodPost \<or> Method req = MethodPut \<or> Method req = MethodPatch"
    and "fst (ParseMediaType (Header_Get (Header req) contentTypeHeaderKey)) = formContentType"
    and "Body req = Some rd"
    and "fault rd = None"
  shows "afterBody (fst (snd (GetClientID (Some req)))) = Some (pending rd, None)
         \<and> afterBody (fst (snd (GetClientID_part_001 (Some req)))) = Some (pending rd, None)"
proof (cases "(snd (snd (BasicAuth req)) \<and> fst (BasicAuth req) \<noteq> '''')
           \<or> HasPrefix (Header_Get (Header req) ''Authorization'') bearerPrefix")
  case True
  from assms(3,4) have "afterBody (Some req) = Some (pending rd, None)"
    by (simp add: afterBody_def ReadAll_def)
  then show ?thesis
    by (simp only: GetClientID_untouched [OF True])
next
  case False
  then have no: "\<not> (snd (snd (BasicAuth req)) \<and> fst (BasicAuth req) \<noteq> '''')"
    and nb: "\<not> HasPrefix (Header_Get (Header req) ''Authorization'') bearerPrefix"
    by blast+
  from assms(1) have m: "Method req = MethodPost \<or> Method req = MethodPatch \<or> Method req = MethodPut"
    by blast
  from formBranch_body [OF assms(3,4)] show ?thesis
    by (simp only: GetClientID_form [OF no nb m])
qed

theorem body_restored_after_read_witness:
  "(Method (request ''PATCH'' '''' charsetHeader (Some (NewBuffer ''client_id=abc&x=%zz''))) = MethodPost
    \<or> Method (request ''PATCH'' '''' charsetHeader (Some (NewBuffer ''client_id=abc&x=%zz''))) = MethodPut
    \<or> Method (request ''PATCH'' '''' charsetHeader (Some (NewBuffer ''client_id=abc&x=%zz''))) = MethodPatch)
   \<and> fst (ParseMediaType (Header_Get (Header (request ''PATCH'' '''' charsetHeader
          (Some (NewBuffer ''client_id=abc&x=%zz'')))) contentTypeHeaderKey)) = formContentType
   \<and> Body (request ''PATCH'' '''' charsetHeader (Some (NewBuffer ''client_id=abc&x=%zz'')))
       = Some (NewBuffer ''client_id=abc&x=%zz'')
   \<and> fault (NewBuffer ''client_id=abc&x=%zz'') = None
   \<and> snd (snd (GetClientID (Some (request ''PATCH'' '''' charsetHeader
          (Some (NewBuffer ''client_id=abc&x=%zz''))))))
       = Some (Errorf ''restplay: failed to parse request form from body'' (EscapeError ''%zz''))
   \<and> afterBody (fst (snd (GetClientID (Some (request ''PATCH'' '''' charsetHeader
          (Some (NewBuffer ''client_id=abc&x=%zz'')))))))
       = Some (''client_id=abc&x=%zz'', None)
   \<and> afterBody (fst (snd (GetClientID_part_001 (Some (request ''PATCH'' '''' charsetHeader
          (Some (NewBuffer ''client_id=abc&x=%zz'')))))))
       = Some (''client_id=abc&x=%zz'', None)"
proof -
  let ?req = "request ''PATCH'' '''' charsetHeader (Some (NewBuffer ''client_id=abc&x=%zz''))"
  have h1: "Method ?req = MethodPost \<or> Method ?req = MethodPut \<or> Method ?req = MethodPatch"
    by (simp add: eval_defs)
  have h2: "fst (ParseMediaType (Header_Get (Header ?req) contentTypeHeaderKey)) = formContentType"
    by (simp add: eval_defs)
  have h3: "Body ?req = Some (NewBuffer ''client_id=abc&x=%zz'')"
    by (simp add: request_def)
  have h4: "fault (NewBuffer ''client_id=abc&x=%zz'') = None"
    by (simp add: NewBuffer_def)
  have e: "snd (snd (GetClientID (Some ?req)))
       = Some (Errorf ''restplay: failed to parse request form from body'' (EscapeError ''%zz''))"
    by (simp add: GetClientID_def eval_defs)
  have p: "pending (NewBuffer ''client_id=abc&x=%zz'') = ''client_id=abc&x=%zz''"
    by (simp add: NewBuffer_def)
  from body_restored_after_read [OF h1 h2 h3 h4] h1 h2 h3 h4 e show ?thesis
    unfolding p by (intro conjI) simp_all
qed

text \<open>
  Claim C1 as written fails: a form POST whose body delivers \<^verbatim>\<open>client_id=abc\<close> and
  then a read error. \<^verbatim>\<open>GetClientID\<close> returns the wrapped read error and leaves the
  body drained: reading it again gives no bytes and the error.
\<close>

theorem body_drained_after_read_error:
  "GetClientID (Some (request ''POST'' '''' formHeader
       (Some (Reader ''client_id=abc'' (Some (ReadError ''unexpected EOF''))))))
     = ('''',
        Some (request ''POST'' '''' formHeader
          (Some (Reader '''' (Some (ReadError ''unexpected EOF''))))),
        Some (Errorf ''restplay: failed to read request body'' (ReadError ''unexpected EOF'')))
   \<and> afterBody (fst (snd (GetClientID (Some (request ''POST'' '''' formHeader
         (Some (Reader ''client_id=abc'' (Some (ReadError ''unexpected EOF'')))))))))
     = Some ('''', Some (ReadError ''unexpected EOF''))"
  by (simp add: GetClientID_def eval_defs)

subsection \<open>Form parsing\<close>

lemma ParseForm_query:
  assumes "\<not> (Method r = MethodPost \<or> Method r = MethodPatch \<or> Method r = MethodPut)"
    and "Form r = None" and "PostForm r = None" and "URL r = Some u"
  shows "ParseForm r =
           (r\<lparr>Form := Some (fst (ParseQuery (RawQuery u))), PostForm := Some []\<rparr>,
            snd (ParseQuery (RawQuery u)))"
  using assms unfolding ParseForm_def MethodPost_def MethodPatch_def MethodPut_def
  by (simp add: Let_def split: prod.splits)

lemma ParseForm_no_url:
  assumes "\<not> (Method r = MethodPost \<or> Method r = MethodPatch \<or> Method r = MethodPut)"
    and "Form r = None" and "PostForm r = None" and "URL r = None"
  shows "ParseForm r = (r\<lparr>Form := Some [], PostForm := Some []\<rparr>, None)"
  using assms unfolding ParseForm_def MethodPost_def MethodPatch_def MethodPut_def
  by (simp add: Let_def split: prod.splits)

text \<open>
  Claim C8, amended. For every GET request without usable Basic-Auth and without a Bearer
  \<^verbatim>\<open>Authorization\<close> header, with no form parsed yet, whose query string parses without
  an error and gives \<^verbatim>\<open>client_id\<close> a first value \<open>X\<close> that is not empty,
  \<^verbatim>\<open>GetClientID\<close> returns \<open>X\<close> and no error.
\<close>

theorem get_query_client_id:
  assumes "Method req = ''GET''"
    and "\<not> (snd (snd (BasicAuth req)) \<and> fst (BasicAuth req) \<noteq> '''')"
    and "\<not> HasPrefix (Header_Get (Header req) ''Authorization'') bearerPrefix"
    and "Form req = None" and "PostForm req = None"
    and "URL req = Some u"
    and "ParseQuery (RawQuery u) = (vs, None)"
    and "Values_Get vs clientIDKey = X" and "X \<noteq> ''''"
  shows "GetClientID (Some req) = (X, Some (req\<lparr>Form := Some vs, PostForm := Some []\<rparr>), None)"
proof -
  from assms(1)
  have m: "\<not> (Method req = MethodPost \<or> Method req = MethodPatch \<or> Method req = MethodPut)"
    by (simp add: MethodPost_def MethodPatch_def MethodPut_def)
  from ParseForm_query [OF m assms(4,5,6)] assms(7)
  have "ParseForm req = (req\<lparr>Form := Some vs, PostForm := Some []\<rparr>, None)"
    by simp
  with assms(4,8,9) have "queryBranch req = (X, Some (req\<lparr>Form := Some vs, PostForm := Some []\<rparr>), None)"
    by (simp add: queryBranch_def lookupForm_def Form_Get_def)
  then show ?thesis
    by (simp only: GetClientID_query(1) [OF assms(2,3) m])
qed

theorem get_query_client_id_witness:
  "Method (request ''GET'' ''client_id=robbie-other-client-id'' [] None) = ''GET''
   \<and> \<not> (snd (snd (BasicAuth (request ''GET'' ''client_id=robbie-other-client-id'' [] None)))
         \<and> fst (BasicAuth (request ''GET'' ''client_id=robbie-other-client-id'' [] None)) \<noteq> '''')
   \<and> \<not> HasPrefix (Header_Get (Header (request ''GET'' ''client_id=robbie-other-client-id'' [] None))
            ''Authorization'') bearerPrefix
   \<and> ParseQuery ''client_id=robbie-other-client-id''
        = ([(''client_id'', [''robbie-other-client-id''])], None)
   \<and> GetClientID (Some (request ''GET'' ''client_id=robbie-other-client-id'' [] None))
        = (''robbie-other-client-id'',
           Some ((request ''GET'' ''client_id=robbie-other-client-id'' [] None)
                  \<lparr>Form := Some [(''client_id'', [''robbie-other-client-id''])],
                   PostForm := Some []\<rparr>),
           None)"
proof -
  let ?req = "request ''GET'' ''client_id=robbie-other-client-id'' [] None"
  have h1: "Method ?req = ''GET''" by (simp add: request_def)
  have h2: "\<not> (snd (snd (BasicAuth ?req)) \<and> fst (BasicAuth ?req) \<noteq> '''')"
    by (simp add: eval_defs)
  have h3: "\<not> HasPrefix (Header_Get (Header ?req) ''Authorization'') bearerPrefix"
    by (simp add: eval_defs)
  have h4: "Form ?req = None" and h5: "PostForm ?req = None"
    and h6: "URL ?req = Some \<lparr>Path = ''/'', RawQuery = ''client_id=robbie-other-client-id''\<rparr>"
    by (simp_all add: request_def)
  have h7: "ParseQuery (RawQuery \<lparr>Path = ''/'', RawQuery = ''client_id=robbie-other-client-id''\<rparr>)
              = ([(''client_id'', [''robbie-other-client-id''])], None)"
    by (simp add: eval_defs)
  have h8: "Values_Get [(''client_id'', [''robbie-other-client-id''])] clientIDKey
              = ''robbie-other-client-id''"
    by (simp add: eval_defs)
  have h9: "''robbie-other-client-id'' \<noteq> ''''" by simp
  from get_query_client_id [OF h1 h2 h3 h4 h5 h6 h7 h8 h9] h1 h2 h3 h7
  show ?thesis by simp
qed

text \<open>
  Claim C8 as written fails twice over. A GET whose query string holds
  \<^verbatim>\<open>client_id=abc\<close> next to a pair that does not unescape gets the wrapped parse error;
  a GET that carries a form parsed earlier is answered from that form, not from the
  query string.
\<close>

theorem get_query_client_id_not_returned:
  "GetClientID (Some (request ''GET'' ''client_id=abc&x=%zz'' [] None))
     = ('''',
        Some ((request ''GET'' ''client_id=abc&x=%zz'' [] None)
               \<lparr>Form := Some [(''client_id'', [''abc''])], PostForm := Some []\<rparr>),
        Some (Errorf ''restplay: failed to parse request form from URL'' (EscapeError ''%zz'')))
   \<and> GetClientID (Some ((request ''GET'' ''client_id=abc'' [] None)\<lparr>Form := Some []\<rparr>))
     = ('''', Some ((request ''GET'' ''client_id=abc'' [] None)\<lparr>Form := Some []\<rparr>),
        Some MissingClientIDErr)"
  by (simp add: GetClientID_def eval_defs)

lemma no_authorization:
  assumes "Header_Get (Header req) ''Authorization'' = ''''"
  shows "\<not> (snd (snd (BasicAuth req)) \<and> fst (BasicAuth req) \<noteq> '''')"
    and "\<not> HasPrefix (Header_Get (Header req) ''Authorization'') bearerPrefix"
  using assms
  by (simp_all add: BasicAuth_def BasicAuth_of_def HasPrefix_def bearerPrefix_def)

text \<open>
  Claim C9, amended. For every non-nil request with no \<^verbatim>\<open>Authorization\<close> header (so
  no Basic-Auth credentials either), no body and no form parsed yet, whose query string,
  if there is a URL, parses without an error and gives \<^verbatim>\<open>client_id\<close> no value or an
  empty first value, \<^verbatim>\<open>GetClientID\<close> returns the empty string and
  \<open>MissingClientIDErr\<close>.
\<close>

theorem empty_request_missing:
  assumes "Header_Get (Header req) ''Authorization'' = ''''"
    and "Body req = None"
    and "Form req = None" and "PostForm req = None"
    and "case URL req of
           None \<Rightarrow> True
         | Some u \<Rightarrow> snd (ParseQuery (RawQuery u)) = None
                     \<and> Values_Get (fst (ParseQuery (RawQuery u))) clientIDKey = ''''"
  shows "fst (GetClientID (Some req)) = ''''
         \<and> snd (snd (GetClientID (Some req))) = Some MissingClientIDErr"
proof (cases "Method req = MethodPost \<or> Method req = MethodPatch \<or> Method req = MethodPut")
  case True
  from assms(2) have "formBranch req = ('''', Some req, Some MissingClientIDErr)"
    by (simp add: formBranch_def Let_def split: prod.splits)
  then show ?thesis
    by (simp only: GetClientID_form(1) [OF no_authorization [OF assms(1)] True]) simp
next
  case False
  have "fst (queryBranch req) = '''' \<and> snd (snd (queryBranch req)) = Some MissingClientIDErr"
  proof (cases "URL req")
    case None
    from ParseForm_no_url [OF False assms(3,4) None] assms(3) show ?thesis
      by (simp add: queryBranch_def lookupForm_def Form_Get_def Values_Get_def)
  next
    case (Some u)
    with assms(5) have e: "snd (ParseQuery (RawQuery u)) = None"
      and v: "Values_Get (fst (ParseQuery (RawQuery u))) clientIDKey = ''''"
      by simp_all
    from ParseForm_query [OF False assms(3,4) Some] assms(3) e v show ?thesis
      by (simp add: queryBranch_def lookupForm_def Form_Get_def)
  qed
  then show ?thesis
    by (simp only: GetClientID_query(1) [OF no_authorization [OF assms(1)] False])
qed

theorem empty_request_missing_witness:
  "Header_Get (Header (request ''GET'' '''' [] None)) ''Authorization'' = ''''
   \<and> Body (request ''GET'' '''' [] None) = None
   \<and> ParseQuery '''' = ([], None)
   \<and> GetClientID (Some (request ''GET'' '''' [] None))
       = ('''', Some ((request ''GET'' '''' [] None)\<lparr>Form := Some [], PostForm := Some []\<rparr>),
          Some MissingClientIDErr)
   \<and> fst (GetClientID (Some (request ''PATCH'' ''x=1'' formHeader None))) = ''''
   \<and> snd (snd (GetClientID (Some (request ''PATCH'' ''x=1'' formHeader None))))
       = Some MissingClientIDErr"
proof -
  let ?req = "request ''PATCH'' ''x=1'' formHeader None"
  have h1: "Header_Get (Header ?req) ''Authorization'' = ''''"
    by (simp add: eval_defs)
  have h2: "Body ?req = None" and h3: "Form ?req = None" and h4: "PostForm ?req = None"
    by (simp_all add: request_def)
  have h5: "case URL ?req of
           None \<Rightarrow> True
         | Some u \<Rightarrow> snd (ParseQuery (RawQuery u)) = None
                     \<and> Values_Get (fst (ParseQuery (RawQuery u))) clientIDKey = ''''"
    by (simp add: eval_defs)
  have g: "Header_Get (Header (request ''GET'' '''' [] None)) ''Authorization'' = ''''
   \<and> Body (request ''GET'' '''' [] None) = None
   \<and> ParseQuery '''' = ([], None)
   \<and> GetClientID (Some (request ''GET'' '''' [] None))
       = ('''', Some ((request ''GET'' '''' [] None)\<lparr>Form := Some [], PostForm := Some []\<rparr>),
          Some MissingClientIDErr)"
    by (simp add: GetClientID_def eval_defs)
  from empty_request_missing [OF h1 h2 h3 h4 h5] g show ?thesis
    by (intro conjI) simp_all
qed

text \<open>
  Claim C9 as written fails twice over. A GET with no header and no body whose query
  string has no \<^verbatim>\<open>client_id\<close> but a pair that does not unescape gets the wrapped parse
  error, not \<open>MissingClientIDErr\<close>; a GET with no header, no body and no query string
  that carries a form parsed earlier gets the \<^verbatim>\<open>client_id\<close> of that form.
\<close>

theorem empty_request_not_missing:
  "GetClientID (Some (request ''GET'' ''x=%zz'' [] None))
     = ('''',
        Some ((request ''GET'' ''x=%zz'' [] None)\<lparr>Form := Some [], PostForm := Some []\<rparr>),
        Some (Errorf ''restplay: failed to parse request form from URL'' (EscapeError ''%zz'')))
   \<and> GetClientID (Some ((request ''GET'' '''' [] None)\<lparr>Form := Some [(''client_id'', [''abc''])]\<rparr>))
     = (''abc'',
        Some ((request ''GET'' '''' [] None)\<lparr>Form := Some [(''client_id'', [''abc''])]\<rparr>),
        None)"
  by (simp add: GetClientID_def eval_defs)

subsection \<open>Merging the body's values and the query's\<close>

lemma map_of_Values_Append:
  "map_of (Values_Append m k vs) k' =
     (if k' = k then Some ((case map_of m k of None \<Rightarrow> [] | Some ws \<Rightarrow> ws) @ vs)
      else map_of m k')"
  by (induction m k vs rule: Values_Append.induct) auto

lemma copyValues_Cons:
  "copyValues dst ((k, vs) # src) = copyValues (Values_Append dst k vs) src"
  by (simp add: copyValues_def)

lemma copyValues_Nil: "copyValues dst [] = dst"
  by (simp add: copyValues_def)

lemma copyValues_absent:
  "map_of src k = None \<Longrightarrow> map_of (copyValues dst src) k = map_of dst k"
proof (induction src arbitrary: dst)
  case Nil
  then show ?case by (simp add: copyValues_Nil)
next
  case (Cons p src)
  obtain k' vs where p: "p = (k', vs)" by (cases p)
  with Cons.prems have "k' \<noteq> k" and "map_of src k = None"
    by (auto split: if_splits)
  with Cons.IH [of "Values_Append dst k' vs"] p show ?case
    by (simp add: copyValues_Cons map_of_Values_Append)
qed

lemma copyValues_keeps_first:
  "map_of dst k = Some (x # xs) \<Longrightarrow> \<exists>ys. map_of (copyValues dst src) k = Some (x # ys)"
proof (induction src arbitrary: dst xs)
  case Nil
  then show ?case by (simp add: copyValues_Nil)
next
  case (Cons p src)
  obtain k' vs where p: "p = (k', vs)" by (cases p)
  from Cons.prems have "\<exists>zs. map_of (Values_Append dst k' vs) k = Some (x # zs)"
    by (auto simp: map_of_Values_Append)
  then obtain zs where "map_of (Values_Append dst k' vs) k = Some (x # zs)" ..
  from Cons.IH [OF this] p show ?case
    by (simp add: copyValues_Cons)
qed

lemma copyValues_first:
  "map_of dst k = None \<Longrightarrow> map_of src k = Some (x # xs) \<Longrightarrow>
     \<exists>ys. map_of (copyValues dst src) k = Some (x # ys)"
proof (induction src arbitrary: dst)
  case Nil
  then show ?case by simp
next
  case (Cons p src)
  obtain k' vs where p: "p = (k', vs)" by (cases p)
  show ?case
  proof (cases "k' = k")
    case True
    with Cons.prems p have "map_of (Values_Append dst k' vs) k = Some (x # xs)"
      by (simp add: map_of_Values_Append)
    from copyValues_keeps_first [OF this] p show ?thesis
      by (simp add: copyValues_Cons)
  next
    case False
    with Cons.prems p have "map_of (Values_Append dst k' vs) k = None"
      and "map_of src k = Some (x # xs)"
      by (simp_all add: map_of_Values_Append)
    from Cons.IH [OF this] p show ?thesis
      by (simp add: copyValues_Cons)
  qed
qed

lemma Values_Get_merged:
  assumes "map_of post k = None" and "Values_Get query k = X" and "X \<noteq> ''''"
  shows "Values_Get (if 0 < length post then copyValues (copyValues [] post) query else query) k
           = X"
proof -
  from assms(2,3) obtain xs where q: "map_of query k = Some (X # xs)"
    by (auto simp: Values_Get_def split: option.splits list.splits)
  from assms(1) have "map_of (copyValues [] post) k = None"
    by (simp add: copyValues_absent)
  from copyValues_first [OF this q] assms(2) show ?thesis
    by (auto simp: Values_Get_def)
qed

subsection \<open>Form parsing of a body\<close>

lemma ParseMediaType_empty: "fst (ParseMediaType '''') = ''''"
  by (simp add: mime_defs byte_defs)

lemma parsePostForm_form:
  assumes "Body r = Some (NewBuffer bs)"
    and "ParseMediaType (Header_Get (Header r) ''Content-Type'')
           = (''application/x-www-form-urlencoded'', merr)"
    and "length bs \<le> maxFormSize"
  shows "parsePostForm r =
           ((Some (fst (ParseQuery bs)), if merr = None then snd (ParseQuery bs) else merr),
            r\<lparr>Body := Some (Reader [] None)\<rparr>)"
proof -
  from assms(2) ParseMediaType_empty have "Header_Get (Header r) ''Content-Type'' \<noteq> ''''"
    by (metis fst_conv list.distinct(1))
  with assms show ?thesis
    by (simp add: parsePostForm_def ReadAll_Limit_def NewBuffer_def Let_def split: prod.splits)
qed

lemma ParseForm_form:
  assumes "Method r = MethodPost \<or> Method r = MethodPatch \<or> Method r = MethodPut"
    and "Form r = None" and "PostForm r = None"
    and "Body r = Some (NewBuffer bs)"
    and "ParseMediaType (Header_Get (Header r) ''Content-Type'')
           = (''application/x-www-form-urlencoded'', merr)"
    and "length bs \<le> maxFormSize"
    and "ParseForm r = (r', e)"
  shows "PostForm r' = Some (fst (ParseQuery bs))"
    and "Form r' = Some (let post = fst (ParseQuery bs);
                            query = (case URL r of None \<Rightarrow> []
                                     | Some u \<Rightarrow> fst (ParseQuery (RawQuery u)))
                        in if 0 < length post then copyValues (copyValues [] post) query
                           else query)"
    and "e = (if merr \<noteq> None then merr
              else if snd (ParseQuery bs) \<noteq> None then snd (ParseQuery bs)
              else (case URL r of None \<Rightarrow> None | Some u \<Rightarrow> snd (ParseQuery (RawQuery u))))"
proof -
  from assms(1) have m: "Method r = ''POST'' \<or> Method r = ''PUT'' \<or> Method r = ''PATCH''"
    by (auto simp: MethodPost_def MethodPatch_def MethodPut_def)
  note pp = parsePostForm_form [OF assms(4,5,6)]
  from assms(7) m assms(2,3) show "PostForm r' = Some (fst (ParseQuery bs))"
    unfolding ParseForm_def pp
    by (auto simp: Let_def split: option.splits prod.splits if_splits)
  from assms(7) m assms(2,3) show "Form r' = Some (let post = fst (ParseQuery bs);
                            query = (case URL r of None \<Rightarrow> []
                                     | Some u \<Rightarrow> fst (ParseQuery (RawQuery u)))
                        in if 0 < length post then copyValues (copyValues [] post) query
                           else query)"
    unfolding ParseForm_def pp
    by (auto simp: Let_def split: option.splits prod.splits if_splits)
  from assms(7) m assms(2,3) show "e = (if merr \<noteq> None then merr
              else if snd (ParseQuery bs) \<noteq> None then snd (ParseQuery bs)
              else (case URL r of None \<Rightarrow> None | Some u \<Rightarrow> snd (ParseQuery (RawQuery u))))"
    unfolding ParseForm_def pp
    by (auto simp: Let_def split: option.splits prod.splits if_splits)
qed


lemma formBranch_reads:
  assumes "fst (ParseMediaType (Header_Get (Header req) contentTypeHeaderKey)) = formContentType"
    and "Body req = Some rd" and "fault rd = None" and "Form req = None"
  shows "formBranch req =
           (case ParseForm (req\<lparr>Body := Some (NewBuffer (pending rd))\<rparr>) of
              (r, Some err) \<Rightarrow>
                ('''', Some (r\<lparr>Body := Some (NewBuffer (pending rd))\<rparr>),
                 Some (Errorf ''restplay: failed to parse request form from body'' err))
            | (r, None) \<Rightarrow> lookupForm (r\<lparr>Body := Some (NewBuffer (pending rd))\<rparr>))"
    and "formBranch_part_001 req = formBranch req"
proof -
  obtain mt me where pm: "ParseMediaType (Header_Get (Header req) contentTypeHeaderKey) = (mt, me)"
    by (cases "ParseMediaType (Header_Get (Header req) contentTypeHeaderKey)")
  with assms(1) have mt: "mt = formContentType"
    by simp
  from pm mt assms(2,3,4) show "formBranch req =
           (case ParseForm (req\<lparr>Body := Some (NewBuffer (pending rd))\<rparr>) of
              (r, Some err) \<Rightarrow>
                ('''', Some (r\<lparr>Body := Some (NewBuffer (pending rd))\<rparr>),
                 Some (Errorf ''restplay: failed to parse request form from body'' err))
            | (r, None) \<Rightarrow> lookupForm (r\<lparr>Body := Some (NewBuffer (pending rd))\<rparr>))"
    by (simp add: formBranch_def ReadAll_def)
  from pm mt assms(2,3,4) show "formBranch_part_001 req = formBranch req"
    by (simp add: formBranch_def formBranch_part_001_def)
qed


text \<open>
  Claim C10, amended. For every POST, PUT or PATCH request without usable Basic-Auth and
  without a Bearer \<^verbatim>\<open>Authorization\<close> header, with no form parsed yet, whose
  Content-Type parses without an error to the media type of a URL-encoded form, whose
  body is read without an error, is at most \<^const>\<open>maxFormSize\<close> bytes long, parses
  without an error and has no key \<^verbatim>\<open>client_id\<close>, and whose query string parses
  without an error and gives \<^verbatim>\<open>client_id\<close> a first value \<open>X\<close> that is not empty,
  \<^verbatim>\<open>GetClientID\<close> returns \<open>X\<close> and no error: form parsing appends the values of the
  query string to those of the body. This holds for \<^verbatim>\<open>src/request_context.go\<close> and
  for the revision \<^verbatim>\<open>src/unnamed/part_001\<close>.
\<close>

theorem form_post_query_client_id:
  assumes "Method req = MethodPost \<or> Method req = MethodPatch \<or> Method req = MethodPut"
    and "\<not> (snd (snd (BasicAuth req)) \<and> fst (BasicAuth req) \<noteq> '''')"
    and "\<not> HasPrefix (Header_Get (Header req) ''Authorization'') bearerPrefix"
    and "ParseMediaType (Header_Get (Header req) contentTypeHeaderKey) = (formContentType, None)"
    and "Body req = Some rd" and "fault rd = None" and "length (pending rd) \<le> maxFormSize"
    and "Form req = None" and "PostForm req = None"
    and "ParseQuery (pending rd) = (bvs, None)" and "map_of bvs clientIDKey = None"
    and "URL req = Some u" and "ParseQuery (RawQuery u) = (qvs, None)"
    and "Values_Get qvs clientIDKey = X" and "X \<noteq> ''''"
  shows "fst (GetClientID (Some req)) = X \<and> snd (snd (GetClientID (Some req))) = None
         \<and> fst (GetClientID_part_001 (Some req)) = X
         \<and> snd (snd (GetClientID_part_001 (Some req))) = None"
proof -
  let ?r1 = "req\<lparr>Body := Some (NewBuffer (pending rd))\<rparr>"
  obtain r' e where pf: "ParseForm ?r1 = (r', e)"
    by (cases "ParseForm ?r1")
  from assms(4) have ct: "ParseMediaType (Header_Get (Header ?r1) ''Content-Type'')
           = (''application/x-www-form-urlencoded'', None)"
    by (simp add: contentTypeHeaderKey_def formContentType_def)
  from assms(1) have m: "Method ?r1 = MethodPost \<or> Method ?r1 = MethodPatch \<or> Method ?r1 = MethodPut"
    by simp
  have f: "Form ?r1 = None" and p: "PostForm ?r1 = None"
    and b: "Body ?r1 = Some (NewBuffer (pending rd))"
    using assms(8,9) by simp_all
  from ParseForm_form(2) [OF m f p b ct assms(7) pf] assms(10,12,13)
  have form: "Form r' = Some (if 0 < length bvs then copyValues (copyValues [] bvs) qvs else qvs)"
    by (simp add: Let_def)
  from ParseForm_form(3) [OF m f p b ct assms(7) pf] assms(10,12,13)
  have e: "e = None"
    by simp
  from form Values_Get_merged [OF assms(11,14,15)]
  have "Form_Get (r'\<lparr>Body := Some (NewBuffer (pending rd))\<rparr>) clientIDKey = X"
    by (simp add: Form_Get_def)
  with assms(15)
  have lk: "lookupForm (r'\<lparr>Body := Some (NewBuffer (pending rd))\<rparr>)
              = (X, Some (r'\<lparr>Body := Some (NewBuffer (pending rd))\<rparr>), None)"
    by (simp add: lookupForm_def)
  from assms(4) have mt: "fst (ParseMediaType (Header_Get (Header req) contentTypeHeaderKey))
                            = formContentType"
    by simp
  from formBranch_reads [OF mt assms(5,6,8)] pf e lk
  have "formBranch req = (X, Some (r'\<lparr>Body := Some (NewBuffer (pending rd))\<rparr>), None)"
    and "formBranch_part_001 req = (X, Some (r'\<lparr>Body := Some (NewBuffer (pending rd))\<rparr>), None)"
    by simp_all
  then show ?thesis
    by (simp only: GetClientID_form [OF assms(2,3,1)]) simp
qed

theorem form_post_query_client_id_witness:
  "(Method (request ''POST'' ''client_id=abc'' formHeader (Some (NewBuffer ''a=1''))) = MethodPost
    \<or> Method (request ''POST'' ''client_id=abc'' formHeader (Some (NewBuffer ''a=1''))) = MethodPatch
    \<or> Method (request ''POST'' ''client_id=abc'' formHeader (Some (NewBuffer ''a=1''))) = MethodPut)
   \<and> \<not> (snd (snd (BasicAuth (request ''POST'' ''client_id=abc'' formHeader
              (Some (NewBuffer ''a=1'')))))
         \<and> fst (BasicAuth (request ''POST'' ''client_id=abc'' formHeader
              (Some (NewBuffer ''a=1'')))) \<noteq> '''')
   \<and> \<not> HasPrefix (Header_Get (Header (request ''POST'' ''client_id=abc'' formHeader
              (Some (NewBuffer ''a=1'')))) ''Authorization'') bearerPrefix
   \<and> ParseMediaType (Header_Get (Header (request ''POST'' ''client_id=abc'' formHeader
              (Some (NewBuffer ''a=1'')))) contentTypeHeaderKey) = (formContentType, None)
   \<and> length (pending (NewBuffer ''a=1'')) \<le> maxFormSize
   \<and> ParseQuery (pending (NewBuffer ''a=1'')) = ([(''a'', [''1''])], None)
   \<and> map_of [(''a'', [''1''])] clientIDKey = None
   \<and> ParseQuery ''client_id=abc'' = ([(''client_id'', [''abc''])], None)
   \<and> fst (GetClientID (Some (request ''POST'' ''client_id=abc'' formHeader
             (Some (NewBuffer ''a=1''))))) = ''abc''
   \<and> snd (snd (GetClientID (Some (request ''POST'' ''client_id=abc'' formHeader
             (Some (NewBuffer ''a=1'')))))) = None
   \<and> fst (GetClientID_part_001 (Some (request ''POST'' ''client_id=abc'' formHeader
             (Some (NewBuffer ''a=1''))))) = ''abc''
   \<and> snd (snd (GetClientID_part_001 (Some (request ''POST'' ''client_id=abc'' formHeader
             (Some (NewBuffer ''a=1'')))))) = None"
proof -
  let ?req = "request ''POST'' ''client_id=abc'' formHeader (Some (NewBuffer ''a=1''))"
  let ?u = "\<lparr>Path = ''/'', RawQuery = ''client_id=abc''\<rparr>"
  have h1: "Method ?req = MethodPost \<or> Method ?req = MethodPatch \<or> Method ?req = MethodPut"
    by (simp add: eval_defs)
  have h2: "\<not> (snd (snd (BasicAuth ?req)) \<and> fst (BasicAuth ?req) \<noteq> '''')"
    by (simp add: eval_defs)
  have h3: "\<not> HasPrefix (Header_Get (Header ?req) ''Authorization'') bearerPrefix"
    by (simp add: eval_defs)
  have h4: "ParseMediaType (Header_Get (Header ?req) contentTypeHeaderKey)
              = (formContentType, None)"
    by (simp add: eval_defs)
  have h5: "Body ?req = Some (NewBuffer ''a=1'')" and h8: "Form ?req = None"
    and h9: "PostForm ?req = None" and h12: "URL ?req = Some ?u"
    by (simp_all add: request_def)
  have h6: "fault (NewBuffer ''a=1'') = None"
    by (simp add: NewBuffer_def)
  have h7: "length (pending (NewBuffer ''a=1'')) \<le> maxFormSize"
    by (simp add: NewBuffer_def maxFormSize_def)
  have h10: "ParseQuery (pending (NewBuffer ''a=1'')) = ([(''a'', [''1''])], None)"
    by (simp add: eval_defs)
  have h11: "map_of [(''a'', [''1''])] clientIDKey = None"
    by (simp add: clientIDKey_def)
  have h13: "ParseQuery (RawQuery ?u) = ([(''client_id'', [''abc''])], None)"
    by (simp add: eval_defs)
  have h14: "Values_Get [(''client_id'', [''abc''])] clientIDKey = ''abc''"
    by (simp add: eval_defs)
  have h15: "''abc'' \<noteq> ''''" by simp
  from h13 have h13': "ParseQuery ''client_id=abc'' = ([(''client_id'', [''abc''])], None)"
    by simp
  from form_post_query_client_id [OF h1 h2 h3 h4 h5 h6 h7 h8 h9 h10 h11 h12 h13 h14 h15]
    h1 h2 h3 h4 h7 h10 h11 h13'
  show ?thesis by (intro conjI) simp_all
qed

text \<open>
  Claim C10 as written fails. Each of these form POSTs has \<^verbatim>\<open>client_id=abc\<close> in the
  query string and none in the body, and none returns \<^verbatim>\<open>abc\<close>: with Basic-Auth
  credentials the username is returned, with a Bearer token the token's identity; a body
  with a pair that does not unescape, a Content-Type with a malformed parameter, a query
  string with a pair that does not unescape and a body of more than
  \<^const>\<open>maxFormSize\<close> bytes give the wrapped parse error; a body whose read fails
  gives the wrapped read error; and a request that carries a form parsed earlier is
  answered from that form.
\<close>

theorem form_post_query_client_id_not_returned:
  "fst (GetClientID (Some (request ''POST'' ''client_id=abc'' basicHeader
          (Some (NewBuffer ''a=1''))))) = ''bob''
   \<and> fst (GetClientID (Some (request ''POST'' ''client_id=abc'' (bearerHeader ''tok.rest'')
          (Some (NewBuffer ''a=1''))))) = ''tok''
   \<and> GetClientID (Some (request ''POST'' ''client_id=abc'' formHeader
          (Some (NewBuffer ''a=%zz''))))
     = ('''',
        Some ((request ''POST'' ''client_id=abc'' formHeader (Some (NewBuffer ''a=%zz'')))
               \<lparr>Form := Some [(''client_id'', [''abc''])], PostForm := Some []\<rparr>),
        Some (Errorf ''restplay: failed to parse request form from body'' (EscapeError ''%zz'')))
   \<and> snd (snd (GetClientID (Some (request ''POST'' ''client_id=abc''
          [(''Content-Type'', [''application/x-www-form-urlencoded; =x''])]
          (Some (NewBuffer ''a=1''))))))
     = Some (Errorf ''restplay: failed to parse request form from body'' ErrInvalidMediaParameter)
   \<and> snd (snd (GetClientID (Some (request ''POST'' ''client_id=abc&y=%zz'' formHeader
          (Some (NewBuffer ''a=1''))))))
     = Some (Errorf ''restplay: failed to parse request form from body'' (EscapeError ''%zz''))
   \<and> snd (snd (GetClientID (Some (request ''POST'' ''client_id=abc'' formHeader
          (Some (NewBuffer (replicate 10485761 CHR ''a'')))))))
     = Some (Errorf ''restplay: failed to parse request form from body'' PostTooLarge)
   \<and> snd (snd (GetClientID (Some (request ''POST'' ''client_id=abc'' formHeader
          (Some (Reader ''a=1'' (Some (ReadError ''unexpected EOF''))))))))
     = Some (Errorf ''restplay: failed to read request body'' (ReadError ''unexpected EOF''))
   \<and> snd (snd (GetClientID (Some ((request ''POST'' ''client_id=abc'' formHeader
          (Some (NewBuffer ''a=1'')))\<lparr>Form := Some []\<rparr>))))
     = Some MissingClientIDErr"
  by (simp add: GetClientID_def eval_defs)







subsection \<open>What the call stores in the request\<close>

lemma reader_without_fault: "fault rd = None \<Longrightarrow> NewBuffer (pending rd) = rd"
  by (cases rd) (simp add: NewBuffer_def)

lemma ParseForm_body_other:
  assumes "\<not> (Method r = MethodPost \<or> Method r = MethodPatch \<or> Method r = MethodPut)"
  shows "Body (fst (ParseForm r)) = Body r"
  using assms unfolding ParseForm_def MethodPost_def MethodPatch_def MethodPut_def
  by (auto simp: Let_def split: option.splits prod.splits)

lemma formBranch_changes:
  "\<exists>req'. fst (snd (formBranch req)) = Some req' \<and>
     ((Form req' = Form req \<and> PostForm req' = PostForm req)
      \<or> (Form req' = Form (fst (ParseForm req))
          \<and> PostForm req' = PostForm (fst (ParseForm req)))) \<and>
     (Body req' = Body req
      \<or> (\<exists>rd. Body req = Some rd \<and> fault rd \<noteq> None \<and> Body req' = Some (snd (ReadAll rd))))"
proof (cases "fst (ParseMediaType (Header_Get (Header req) contentTypeHeaderKey))
                 = formContentType \<and> Body req \<noteq> None \<and> Form req = None")
  case True
  then obtain rd where rd: "Body req = Some rd"
    and mt: "fst (ParseMediaType (Header_Get (Header req) contentTypeHeaderKey)) = formContentType"
    and f: "Form req = None"
    by auto
  show ?thesis
  proof (cases "fault rd")
    case None
    from rd reader_without_fault [OF None]
    have same: "req\<lparr>Body := Some (NewBuffer (pending rd))\<rparr> = req"
      by simp
    obtain r e where pf: "ParseForm req = (r, e)"
      by (cases "ParseForm req")
    from formBranch_reads(1) [OF mt rd None f] pf
    have "fst (snd (formBranch req)) = Some (r\<lparr>Body := Some (NewBuffer (pending rd))\<rparr>)"
      unfolding same by (cases e) (simp_all add: lookupForm_request)
    with pf rd reader_without_fault [OF None] show ?thesis
      by simp
  next
    case (Some err)
    obtain mtv me where pm: "ParseMediaType (Header_Get (Header req) contentTypeHeaderKey) = (mtv, me)"
      by (cases "ParseMediaType (Header_Get (Header req) contentTypeHeaderKey)")
    with mt have "mtv = formContentType" by simp
    with pm rd f Some
    have "fst (snd (formBranch req)) = Some (req\<lparr>Body := Some (snd (ReadAll rd))\<rparr>)"
      by (simp add: formBranch_def ReadAll_def)
    with rd Some show ?thesis
      by simp
  qed
next
  case False
  obtain mtv me where pm: "ParseMediaType (Header_Get (Header req) contentTypeHeaderKey) = (mtv, me)"
    by (cases "ParseMediaType (Header_Get (Header req) contentTypeHeaderKey)")
  with False have "\<not> (mtv = formContentType \<and> Body req \<noteq> None \<and> Form req = None)"
    by simp
  with pm have "fst (snd (formBranch req)) = Some req"
    by (auto simp: formBranch_def lookupForm_request)
  then show ?thesis by simp
qed

lemma formBranch_part_001_changes:
  "\<exists>req'. fst (snd (formBranch_part_001 req)) = Some req' \<and>
     ((Form req' = Form req \<and> PostForm req' = PostForm req)
      \<or> (Form req' = Form (fst (ParseForm req))
          \<and> PostForm req' = PostForm (fst (ParseForm req)))
      \<or> (Form req = None \<and> Form req' = Some [] \<and> PostForm req' = PostForm req)) \<and>
     (Body req' = Body req
      \<or> (\<exists>rd. Body req = Some rd \<and> fault rd \<noteq> None \<and> Body req' = Some (snd (ReadAll rd))))"
proof (cases "fst (ParseMediaType (Header_Get (Header req) contentTypeHeaderKey))
                 = formContentType \<and> Body req \<noteq> None")
  case True
  obtain mtv me where pm: "ParseMediaType (Header_Get (Header req) contentTypeHeaderKey) = (mtv, me)"
    by (cases "ParseMediaType (Header_Get (Header req) contentTypeHeaderKey)")
  with True have "mtv = formContentType \<and> Body req \<noteq> None" by simp
  with pm have "formBranch_part_001 req = formBranch req"
    by (simp add: formBranch_def formBranch_part_001_def)
  with formBranch_changes [of req] show ?thesis
    by auto
next
  case False
  obtain mtv me where pm: "ParseMediaType (Header_Get (Header req) contentTypeHeaderKey) = (mtv, me)"
    by (cases "ParseMediaType (Header_Get (Header req) contentTypeHeaderKey)")
  with False have "\<not> (mtv = formContentType \<and> Body req \<noteq> None)" by simp
  with pm have "fst (snd (formBranch_part_001 req))
                  = Some (if Form req = None then req\<lparr>Form := Some []\<rparr> else req)"
    by (auto simp: formBranch_part_001_def lookupForm_request)
  then show ?thesis by simp
qed

lemma queryBranch_changes:
  assumes "\<not> (Method req = MethodPost \<or> Method req = MethodPatch \<or> Method req = MethodPut)"
  shows "\<exists>req'. fst (snd (queryBranch req)) = Some req' \<and>
     ((Form req' = Form req \<and> PostForm req' = PostForm req)
      \<or> (Form req' = Form (fst (ParseForm req))
          \<and> PostForm req' = PostForm (fst (ParseForm req)))) \<and>
     Body req' = Body req"
proof (cases "Form req")
  case None
  obtain r e where pf: "ParseForm req = (r, e)"
    by (cases "ParseForm req")
  with None have "fst (snd (queryBranch req)) = Some r"
    by (cases e) (simp_all add: queryBranch_def lookupForm_request)
  with pf ParseForm_body_other [OF assms] show ?thesis
    by simp
next
  case (Some f)
  then have "fst (snd (queryBranch req)) = Some req"
    by (simp add: queryBranch_def lookupForm_request)
  then show ?thesis by simp
qed

lemma request_mutations_aux:
  "(\<exists>req'. fst (snd (GetClientID (Some req))) = Some req' \<and>
      req' = req\<lparr>Body := Body req', Form := Form req', PostForm := PostForm req'\<rparr> \<and>
      ((Form req' = Form req \<and> PostForm req' = PostForm req)
       \<or> (Form req' = Form (fst (ParseForm req))
           \<and> PostForm req' = PostForm (fst (ParseForm req)))) \<and>
      (Body req' = Body req
       \<or> (\<exists>rd. Body req = Some rd \<and> fault rd \<noteq> None
                \<and> Body req' = Some (snd (ReadAll rd)))))
   \<and> (\<exists>req'. fst (snd (GetClientID_part_001 (Some req))) = Some req' \<and>
      req' = req\<lparr>Body := Body req', Form := Form req', PostForm := PostForm req'\<rparr> \<and>
      ((Form req' = Form req \<and> PostForm req' = PostForm req)
       \<or> (Form req' = Form (fst (ParseForm req))
           \<and> PostForm req' = PostForm (fst (ParseForm req)))
       \<or> (Form req = None \<and> Form req' = Some [] \<and> PostForm req' = PostForm req)) \<and>
      (Body req' = Body req
       \<or> (\<exists>rd. Body req = Some rd \<and> fault rd \<noteq> None
                \<and> Body req' = Some (snd (ReadAll rd)))))"
proof -
  let ?auth = "Header_Get (Header req) ''Authorization''"
  consider (early) "(snd (snd (BasicAuth req)) \<and> fst (BasicAuth req) \<noteq> '''')
           \<or> HasPrefix ?auth bearerPrefix"
    | (form) "\<not> (snd (snd (BasicAuth req)) \<and> fst (BasicAuth req) \<noteq> '''')"
        "\<not> HasPrefix ?auth bearerPrefix"
        "Method req = MethodPost \<or> Method req = MethodPatch \<or> Method req = MethodPut"
    | (query) "\<not> (snd (snd (BasicAuth req)) \<and> fst (BasicAuth req) \<noteq> '''')"
        "\<not> HasPrefix ?auth bearerPrefix"
        "\<not> (Method req = MethodPost \<or> Method req = MethodPatch \<or> Method req = MethodPut)"
    by blast
  then show ?thesis
  proof cases
    case early
    have "req = req\<lparr>Body := Body req, Form := Form req, PostForm := PostForm req\<rparr>"
      by simp
    then show ?thesis
      unfolding GetClientID_untouched [OF early] by blast
  next
    case form
    from formBranch_frame [of req] obtain r1
      where a1: "fst (snd (formBranch req)) = Some r1" and a2: "sameOtherFields req r1"
      by (elim exE conjE)
    from formBranch_changes [of req] obtain r2
      where b1: "fst (snd (formBranch req)) = Some r2"
        and b2: "(Form r2 = Form req \<and> PostForm r2 = PostForm req)
                 \<or> (Form r2 = Form (fst (ParseForm req))
                     \<and> PostForm r2 = PostForm (fst (ParseForm req)))"
        and b3: "Body r2 = Body req
                 \<or> (\<exists>rd. Body req = Some rd \<and> fault rd \<noteq> None
                          \<and> Body r2 = Some (snd (ReadAll rd)))"
      by (elim exE conjE)
    from a1 b1 have e: "r2 = r1" by simp
    from formBranch_part_001_frame [of req] obtain p1
      where c1: "fst (snd (formBranch_part_001 req)) = Some p1" and c2: "sameOtherFields req p1"
      by (elim exE conjE)
    from formBranch_part_001_changes [of req] obtain p2
      where d1: "fst (snd (formBranch_part_001 req)) = Some p2"
        and d2: "(Form p2 = Form req \<and> PostForm p2 = PostForm req)
                 \<or> (Form p2 = Form (fst (ParseForm req))
                     \<and> PostForm p2 = PostForm (fst (ParseForm req)))
                 \<or> (Form req = None \<and> Form p2 = Some [] \<and> PostForm p2 = PostForm req)"
        and d3: "Body p2 = Body req
                 \<or> (\<exists>rd. Body req = Some rd \<and> fault rd \<noteq> None
                          \<and> Body p2 = Some (snd (ReadAll rd)))"
      by (elim exE conjE)
    from c1 d1 have e': "p2 = p1" by simp
    show ?thesis
      unfolding GetClientID_form [OF form]
    proof (intro conjI)
      from a1 a2 b2 b3 show "\<exists>req'. fst (snd (formBranch req)) = Some req' \<and>
        req' = req\<lparr>Body := Body req', Form := Form req', PostForm := PostForm req'\<rparr> \<and>
        ((Form req' = Form req \<and> PostForm req' = PostForm req)
         \<or> (Form req' = Form (fst (ParseForm req))
             \<and> PostForm req' = PostForm (fst (ParseForm req)))) \<and>
        (Body req' = Body req
         \<or> (\<exists>rd. Body req = Some rd \<and> fault rd \<noteq> None
                  \<and> Body req' = Some (snd (ReadAll rd))))"
        unfolding e sameOtherFields_iff by (intro exI [of _ r1] conjI)
      from c1 c2 d2 d3 show "\<exists>req'. fst (snd (formBranch_part_001 req)) = Some req' \<and>
        req' = req\<lparr>Body := Body req', Form := Form req', PostForm := PostForm req'\<rparr> \<and>
        ((Form req' = Form req \<and> PostForm req' = PostForm req)
         \<or> (Form req' = Form (fst (ParseForm req))
             \<and> PostForm req' = PostForm (fst (ParseForm req)))
         \<or> (Form req = None \<and> Form req' = Some [] \<and> PostForm req' = PostForm req)) \<and>
        (Body req' = Body req
         \<or> (\<exists>rd. Body req = Some rd \<and> fault rd \<noteq> None
                  \<and> Body req' = Some (snd (ReadAll rd))))"
        unfolding e' sameOtherFields_iff by (intro exI [of _ p1] conjI)
    qed
  next
    case query
    from queryBranch_frame [of req] obtain r1
      where a1: "fst (snd (queryBranch req)) = Some r1" and a2: "sameOtherFields req r1"
      by (elim exE conjE)
    from queryBranch_changes [OF query(3)] obtain r2
      where b1: "fst (snd (queryBranch req)) = Some r2"
        and b2: "(Form r2 = Form req \<and> PostForm r2 = PostForm req)
                 \<or> (Form r2 = Form (fst (ParseForm req))
                     \<and> PostForm r2 = PostForm (fst (ParseForm req)))"
        and b3: "Body r2 = Body req"
      by (elim exE conjE)
    from a1 b1 have e: "r2 = r1" by simp
    from b2 have b2': "(Form r2 = Form req \<and> PostForm r2 = PostForm req)
                 \<or> (Form r2 = Form (fst (ParseForm req))
                     \<and> PostForm r2 = PostForm (fst (ParseForm req)))
                 \<or> (Form req = None \<and> Form r2 = Some [] \<and> PostForm r2 = PostForm req)"
      by blast
    from b3 have b3': "Body r2 = Body req
                 \<or> (\<exists>rd. Body req = Some rd \<and> fault rd \<noteq> None
                          \<and> Body r2 = Some (snd (ReadAll rd)))"
      by (rule disjI1)
    show ?thesis
      unfolding GetClientID_query [OF query]
    proof (intro conjI)
      from a1 a2 b2 b3' show "\<exists>req'. fst (snd (queryBranch req)) = Some req' \<and>
        req' = req\<lparr>Body := Body req', Form := Form req', PostForm := PostForm req'\<rparr> \<and>
        ((Form req' = Form req \<and> PostForm req' = PostForm req)
         \<or> (Form req' = Form (fst (ParseForm req))
             \<and> PostForm req' = PostForm (fst (ParseForm req)))) \<and>
        (Body req' = Body req
         \<or> (\<exists>rd. Body req = Some rd \<and> fault rd \<noteq> None
                  \<and> Body req' = Some (snd (ReadAll rd))))"
        unfolding e sameOtherFields_iff by (intro exI [of _ r1] conjI)
      from a1 a2 b2' b3' show "\<exists>req'. fst (snd (queryBranch req)) = Some req' \<and>
        req' = req\<lparr>Body := Body req', Form := Form req', PostForm := PostForm req'\<rparr> \<and>
        ((Form req' = Form req \<and> PostForm req' = PostForm req)
         \<or> (Form req' = Form (fst (ParseForm req))
             \<and> PostForm req' = PostForm (fst (ParseForm req)))
         \<or> (Form req = None \<and> Form req' = Some [] \<and> PostForm req' = PostForm req)) \<and>
        (Body req' = Body req
         \<or> (\<exists>rd. Body req = Some rd \<and> fault rd \<noteq> None
                  \<and> Body req' = Some (snd (ReadAll rd))))"
        unfolding e sameOtherFields_iff by (intro exI [of _ r1] conjI)
    qed
  qed
qed

text \<open>
  Claim C7, amended. For every non-nil request, the request that \<^verbatim>\<open>GetClientID\<close>
  leaves differs from the one it was given in the fields \<open>Body\<close>, \<open>Form\<close> and
  \<open>PostForm\<close> at most: the method, the URL, the headers, the content length and every
  other field are unchanged. \<open>Form\<close> and \<open>PostForm\<close> are as they were or as
  \<^verbatim>\<open>Request.ParseForm\<close> sets them for the request; in the revision
  \<^verbatim>\<open>src/unnamed/part_001\<close> a missing \<open>Form\<close> may also have become an empty one.
  The body is the stream it was, reading from the start as before the call, or it is a
  stream whose read fails, left drained.
\<close>

theorem request_mutations:
  assumes "ParseForm req = (parsed, perr)"
  shows "(\<exists>req'. fst (snd (GetClientID (Some req))) = Some req' \<and>
      req' = req\<lparr>Body := Body req', Form := Form req', PostForm := PostForm req'\<rparr> \<and>
      ((Form req' = Form req \<and> PostForm req' = PostForm req)
       \<or> (Form req' = Form parsed \<and> PostForm req' = PostForm parsed)) \<and>
      (Body req' = Body req
       \<or> (\<exists>rd. Body req = Some rd \<and> fault rd \<noteq> None
                \<and> Body req' = Some (snd (ReadAll rd)))))
   \<and> (\<exists>req'. fst (snd (GetClientID_part_001 (Some req))) = Some req' \<and>
      req' = req\<lparr>Body := Body req', Form := Form req', PostForm := PostForm req'\<rparr> \<and>
      ((Form req' = Form req \<and> PostForm req' = PostForm req)
       \<or> (Form req' = Form parsed \<and> PostForm req' = PostForm parsed)
       \<or> (Form req = None \<and> Form req' = Some [] \<and> PostForm req' = PostForm req)) \<and>
      (Body req' = Body req
       \<or> (\<exists>rd. Body req = Some rd \<and> fault rd \<noteq> None
                \<and> Body req' = Some (snd (ReadAll rd)))))"
proof -
  from assms have "fst (ParseForm req) = parsed"
    by simp
  with request_mutations_aux [of req] show ?thesis
    by simp
qed

theorem request_mutations_witness:
  "ParseForm (request ''POST'' ''x=1'' formHeader (Some (NewBuffer ''client_id=robbie-client-id'')))
     = ((request ''POST'' ''x=1'' formHeader (Some (NewBuffer '''')))
          \<lparr>Form := Some [(''client_id'', [''robbie-client-id'']), (''x'', [''1''])],
           PostForm := Some [(''client_id'', [''robbie-client-id''])]\<rparr>,
        None)
   \<and> fst (snd (GetClientID (Some (request ''POST'' ''x=1'' formHeader
        (Some (NewBuffer ''client_id=robbie-client-id''))))))
     = Some ((request ''POST'' ''x=1'' formHeader (Some (NewBuffer ''client_id=robbie-client-id'')))
              \<lparr>Form := Some [(''client_id'', [''robbie-client-id'']), (''x'', [''1''])],
               PostForm := Some [(''client_id'', [''robbie-client-id''])]\<rparr>)
   \<and> fst (snd (GetClientID_part_001 (Some (request ''POST'' ''x=1'' formHeader
        (Some (NewBuffer ''client_id=robbie-client-id''))))))
     = Some ((request ''POST'' ''x=1'' formHeader (Some (NewBuffer ''client_id=robbie-client-id'')))
              \<lparr>Form := Some [(''client_id'', [''robbie-client-id'']), (''x'', [''1''])],
               PostForm := Some [(''client_id'', [''robbie-client-id''])]\<rparr>)"
proof -
  let ?req = "request ''POST'' ''x=1'' formHeader (Some (NewBuffer ''client_id=robbie-client-id''))"
  have h: "ParseForm ?req
     = ((request ''POST'' ''x=1'' formHeader (Some (NewBuffer '''')))
          \<lparr>Form := Some [(''client_id'', [''robbie-client-id'']), (''x'', [''1''])],
           PostForm := Some [(''client_id'', [''robbie-client-id''])]\<rparr>,
        None)"
    by (simp add: eval_defs)
  have g: "fst (snd (GetClientID (Some ?req)))
     = Some (?req\<lparr>Form := Some [(''client_id'', [''robbie-client-id'']), (''x'', [''1''])],
                  PostForm := Some [(''client_id'', [''robbie-client-id''])]\<rparr>)"
    and g1: "fst (snd (GetClientID_part_001 (Some ?req)))
     = Some (?req\<lparr>Form := Some [(''client_id'', [''robbie-client-id'']), (''x'', [''1''])],
                  PostForm := Some [(''client_id'', [''robbie-client-id''])]\<rparr>)"
    by (simp_all add: GetClientID_def GetClientID_part_001_def eval_defs)
  from request_mutations [OF h] h g g1 show ?thesis
    by (intro conjI)
qed

text \<open>
  Claim C7 as written fails: the call can change the request in ways that are neither
  caching the parsed form nor resetting the body. A form PUT whose body delivers
  \<^verbatim>\<open>client_id=xyz\<close> and then a read error is left with the body drained; and the
  revision \<^verbatim>\<open>src/unnamed/part_001\<close> gives a POST that is not a form an empty
  \<open>Form\<close>, where form parsing would have stored the value of the query string.
\<close>

theorem request_mutations_beyond_cache_and_reset:
  "fst (snd (GetClientID (Some (request ''PUT'' '''' formHeader
        (Some (Reader ''client_id=xyz'' (Some (ReadError ''connection reset''))))))))
     = Some (request ''PUT'' '''' formHeader
        (Some (Reader '''' (Some (ReadError ''connection reset'')))))
   \<and> fst (snd (GetClientID_part_001 (Some (request ''POST'' ''x=1'' [] None))))
     = Some ((request ''POST'' ''x=1'' [] None)\<lparr>Form := Some []\<rparr>)
   \<and> Form (fst (ParseForm (request ''POST'' ''x=1'' [] None))) = Some [(''x'', [''1''])]"
  by (simp add: GetClientID_def GetClientID_part_001_def eval_defs)

end
